theory Spec2Isabelle
  imports Complex_Main "HOL-Library.Monad_Syntax"
begin

section \<open>Conventions of the embedding\<close>

text \<open>
  The demo programs compute with C++ \<^verbatim>\<open>float\<close> and \<^verbatim>\<open>int\<close>.
  \<^item> A \<^verbatim>\<open>float\<close> is modelled as a \<^typ>\<open>real\<close>: comparisons, branches and the
    algebra of the source are kept, while rounding, infinities and NaN have no
    counterpart. Where the source divides by a value that can be zero, or converts a
    float to an \<^verbatim>\<open>int\<close> that does not fit, the model says so with \<open>None\<close> instead
    of using the total HOL operation.
  \<^item> An \<^verbatim>\<open>int\<close> is modelled as an \<^typ>\<open>int\<close> and an \<^verbatim>\<open>unsigned int\<close> vertex
    index as a \<^typ>\<open>nat\<close>; the counters of the mesh generators stay far below
    \<open>2^31\<close> for every mesh that fits in memory.
  \<^item> A \<^verbatim>\<open>std::vector\<close> is a list; \<^verbatim>\<open>push_back\<close> appends at the end.
\<close>

section \<open>Vec3 of the ball game (src/src/main.cpp)\<close>

datatype Vec3 = Vec3 (xc: real) (yc: real) (zc: real)

definition Vec3_plus :: "Vec3 \<Rightarrow> Vec3 \<Rightarrow> Vec3" where
  "Vec3_plus a b = Vec3 (xc a + xc b) (yc a + yc b) (zc a + zc b)"

definition Vec3_minus :: "Vec3 \<Rightarrow> Vec3 \<Rightarrow> Vec3" where
  "Vec3_minus a b = Vec3 (xc a - xc b) (yc a - yc b) (zc a - zc b)"

definition Vec3_times :: "Vec3 \<Rightarrow> real \<Rightarrow> Vec3" where
  "Vec3_times a scalar = Vec3 (xc a * scalar) (yc a * scalar) (zc a * scalar)"

text \<open>
  A float division whose divisor is zero yields an infinity or a NaN in C++, values
  the reals do not have: \<open>fdiv\<close> returns \<open>None\<close> there, where HOL's own
  \<open>x / 0\<close> would be \<open>0\<close>.
\<close>

definition fdiv :: "real \<Rightarrow> real \<Rightarrow> real option" where
  "fdiv a b = (if b = 0 then None else Some (a / b))"

text \<open>
  \<^verbatim>\<open>operator/\<close> of main.cpp takes the quotient only when
  \<^verbatim>\<open>fabs(scalar) > 0.0001f\<close> and returns the zero vector otherwise.
\<close>

definition Vec3_divide :: "Vec3 \<Rightarrow> real \<Rightarrow> Vec3 option" where
  "Vec3_divide a scalar =
     (if \<bar>scalar\<bar> > 0.0001
      then do {
        x \<leftarrow> fdiv (xc a) scalar;
        y \<leftarrow> fdiv (yc a) scalar;
        z \<leftarrow> fdiv (zc a) scalar;
        Some (Vec3 x y z)
      }
      else Some (Vec3 0 0 0))"

definition Vec3_uminus :: "Vec3 \<Rightarrow> Vec3" where
  "Vec3_uminus a = Vec3 (- xc a) (- yc a) (- zc a)"

definition Vec3_length :: "Vec3 \<Rightarrow> real" where
  "Vec3_length a = sqrt (xc a * xc a + yc a * yc a + zc a * zc a)"

definition Vec3_lengthSquared :: "Vec3 \<Rightarrow> real" where
  "Vec3_lengthSquared a = xc a * xc a + yc a * yc a + zc a * zc a"

definition Vec3_normalize :: "Vec3 \<Rightarrow> Vec3 option" where
  "Vec3_normalize a =
     (let l = Vec3_length a in if l > 0.0001 then Vec3_divide a l else Some (Vec3 0 1 0))"

definition Vec3_dot :: "Vec3 \<Rightarrow> Vec3 \<Rightarrow> real" where
  "Vec3_dot a b = xc a * xc b + yc a * yc b + zc a * zc b"

definition Vec3_cross :: "Vec3 \<Rightarrow> Vec3 \<Rightarrow> Vec3" where
  "Vec3_cross a b =
     Vec3 (yc a * zc b - zc a * yc b) (zc a * xc b - xc a * zc b) (xc a * yc b - yc a * xc b)"

definition Vec3_lerp :: "Vec3 \<Rightarrow> Vec3 \<Rightarrow> real \<Rightarrow> Vec3" where
  "Vec3_lerp a b t = Vec3_plus (Vec3_times a (1 - t)) (Vec3_times b t)"

text \<open>Assignments to a single member, as in \<^verbatim>\<open>position.y = radius\<close>.\<close>

definition set_x :: "Vec3 \<Rightarrow> real \<Rightarrow> Vec3" where
  "set_x a v = Vec3 v (yc a) (zc a)"

definition set_y :: "Vec3 \<Rightarrow> real \<Rightarrow> Vec3" where
  "set_y a v = Vec3 (xc a) v (zc a)"

definition set_z :: "Vec3 \<Rightarrow> real \<Rightarrow> Vec3" where
  "set_z a v = Vec3 (xc a) (yc a) v"

section \<open>Vec3 of the OBJ viewer (src/src/load_obj_model.cpp)\<close>

text \<open>
  The OBJ viewer declares its own \<^verbatim>\<open>Vec3\<close> with the same three members. Its
  \<^verbatim>\<open>operator/\<close> divides without a guard, and its \<^verbatim>\<open>normalize\<close> returns the
  vector itself unless the length is positive.
\<close>

definition ObjVec3_divide :: "Vec3 \<Rightarrow> real \<Rightarrow> Vec3 option" where
  "ObjVec3_divide a scalar =
     do {
       x \<leftarrow> fdiv (xc a) scalar;
       y \<leftarrow> fdiv (yc a) scalar;
       z \<leftarrow> fdiv (zc a) scalar;
       Some (Vec3 x y z)
     }"

definition ObjVec3_normalize :: "Vec3 \<Rightarrow> Vec3 option" where
  "ObjVec3_normalize a =
     (let l = Vec3_length a in if l > 0 then ObjVec3_divide a l else Some a)"

section \<open>Mat4 (src/src/main.cpp)\<close>

text \<open>
  \<^verbatim>\<open>struct Mat4 { float m[16]; }\<close>: the sixteen entries are a list of length 16. The
  default constructor and \<^verbatim>\<open>identity()\<close> both clear the array and set the four
  diagonal entries. \<^verbatim>\<open>operator*\<close> starts from a default-constructed result and
  runs three nested loops over \<open>i\<close>, \<open>j\<close> and \<open>k\<close>.
\<close>

datatype Mat4 = Mat4 (mat_m: "real list")

definition Mat4_new :: Mat4 where
  "Mat4_new = Mat4 ((replicate 16 0)[0 := 1, 5 := 1, 10 := 1, 15 := 1])"

definition Mat4_identity :: Mat4 where
  "Mat4_identity =
     Mat4 ((fold (\<lambda>i r. r[i := 0]) [0..<16] (mat_m Mat4_new))[0 := 1, 5 := 1, 10 := 1, 15 := 1])"

definition mult_k :: "real list \<Rightarrow> real list \<Rightarrow> nat \<Rightarrow> nat \<Rightarrow> nat \<Rightarrow> real list \<Rightarrow> real list" where
  "mult_k a b i j k r = r[i * 4 + j := r ! (i * 4 + j) + a ! (i * 4 + k) * b ! (k * 4 + j)]"

definition mult_j :: "real list \<Rightarrow> real list \<Rightarrow> nat \<Rightarrow> nat \<Rightarrow> real list \<Rightarrow> real list" where
  "mult_j a b i j r = fold (mult_k a b i j) [0..<4] (r[i * 4 + j := 0])"

definition mult_i :: "real list \<Rightarrow> real list \<Rightarrow> nat \<Rightarrow> real list \<Rightarrow> real list" where
  "mult_i a b i r = fold (mult_j a b i) [0..<4] r"

definition Mat4_mult :: "Mat4 \<Rightarrow> Mat4 \<Rightarrow> Mat4" where
  "Mat4_mult A B = Mat4 (fold (mult_i (mat_m A) (mat_m B)) [0..<4] (mat_m Mat4_new))"

section \<open>Meshes and the mesh generators (src/src/main.cpp)\<close>

datatype Vertex = Vertex (v_position: Vec3) (v_normal: Vec3) (v_color: Vec3)

record Mesh =
  vertices :: "Vertex list"
  indices :: "nat list"
  VAO :: nat
  VBO :: nat
  EBO :: nat

definition Mesh_new :: Mesh where
  "Mesh_new = \<lparr>vertices = [], indices = [], VAO = 0, VBO = 0, EBO = 0\<rparr>"

definition generateCube :: Mesh where
  "generateCube = Mesh_new
     \<lparr>vertices :=
        [Vertex (Vec3 (-0.5) (-0.5) 0.5) (Vec3 0 0 1) (Vec3 1 1 1),
         Vertex (Vec3 0.5 (-0.5) 0.5) (Vec3 0 0 1) (Vec3 1 1 1),
         Vertex (Vec3 0.5 0.5 0.5) (Vec3 0 0 1) (Vec3 1 1 1),
         Vertex (Vec3 (-0.5) 0.5 0.5) (Vec3 0 0 1) (Vec3 1 1 1),
         Vertex (Vec3 (-0.5) (-0.5) (-0.5)) (Vec3 0 0 (-1)) (Vec3 1 1 1),
         Vertex (Vec3 (-0.5) 0.5 (-0.5)) (Vec3 0 0 (-1)) (Vec3 1 1 1),
         Vertex (Vec3 0.5 0.5 (-0.5)) (Vec3 0 0 (-1)) (Vec3 1 1 1),
         Vertex (Vec3 0.5 (-0.5) (-0.5)) (Vec3 0 0 (-1)) (Vec3 1 1 1),
         Vertex (Vec3 (-0.5) (-0.5) (-0.5)) (Vec3 (-1) 0 0) (Vec3 1 1 1),
         Vertex (Vec3 (-0.5) (-0.5) 0.5) (Vec3 (-1) 0 0) (Vec3 1 1 1),
         Vertex (Vec3 (-0.5) 0.5 0.5) (Vec3 (-1) 0 0) (Vec3 1 1 1),
         Vertex (Vec3 (-0.5) 0.5 (-0.5)) (Vec3 (-1) 0 0) (Vec3 1 1 1),
         Vertex (Vec3 0.5 (-0.5) 0.5) (Vec3 1 0 0) (Vec3 1 1 1),
         Vertex (Vec3 0.5 (-0.5) (-0.5)) (Vec3 1 0 0) (Vec3 1 1 1),
         Vertex (Vec3 0.5 0.5 (-0.5)) (Vec3 1 0 0) (Vec3 1 1 1),
         Vertex (Vec3 0.5 0.5 0.5) (Vec3 1 0 0) (Vec3 1 1 1),
         Vertex (Vec3 (-0.5) 0.5 0.5) (Vec3 0 1 0) (Vec3 1 1 1),
         Vertex (Vec3 0.5 0.5 0.5) (Vec3 0 1 0) (Vec3 1 1 1),
         Vertex (Vec3 0.5 0.5 (-0.5)) (Vec3 0 1 0) (Vec3 1 1 1),
         Vertex (Vec3 (-0.5) 0.5 (-0.5)) (Vec3 0 1 0) (Vec3 1 1 1),
         Vertex (Vec3 (-0.5) (-0.5) (-0.5)) (Vec3 0 (-1) 0) (Vec3 1 1 1),
         Vertex (Vec3 0.5 (-0.5) (-0.5)) (Vec3 0 (-1) 0) (Vec3 1 1 1),
         Vertex (Vec3 0.5 (-0.5) 0.5) (Vec3 0 (-1) 0) (Vec3 1 1 1),
         Vertex (Vec3 (-0.5) (-0.5) 0.5) (Vec3 0 (-1) 0) (Vec3 1 1 1)],
      indices :=
        [0, 1, 2, 2, 3, 0,
         4, 5, 6, 6, 7, 4,
         8, 9, 10, 10, 11, 8,
         12, 13, 14, 14, 15, 12,
         16, 17, 18, 18, 19, 16,
         20, 21, 22, 22, 23, 20]\<rparr>"

definition generatePyramid :: Mesh where
  "generatePyramid = Mesh_new
     \<lparr>vertices :=
        [Vertex (Vec3 (-0.5) 0 (-0.5)) (Vec3 0 (-1) 0) (Vec3 1 1 1),
         Vertex (Vec3 0.5 0 (-0.5)) (Vec3 0 (-1) 0) (Vec3 1 1 1),
         Vertex (Vec3 0.5 0 0.5) (Vec3 0 (-1) 0) (Vec3 1 1 1),
         Vertex (Vec3 (-0.5) 0 0.5) (Vec3 0 (-1) 0) (Vec3 1 1 1),
         Vertex (Vec3 0 1 0) (Vec3 0 1 0) (Vec3 1 1 1)],
      indices :=
        [0, 1, 2,
         2, 3, 0,
         0, 1, 4,
         1, 2, 4,
         2, 3, 4,
         3, 0, 4]\<rparr>"

text \<open>
  \<^verbatim>\<open>generateCylinder(int segments)\<close> runs two counting loops. The first pushes a
  bottom and a top vertex for every \<open>i\<close> from \<open>0\<close> to \<open>segments\<close> inclusive, the
  second pushes six indices for every \<open>i\<close> below \<open>segments\<close>. The angle is
  \<^verbatim>\<open>2.0f * 3.14159f * i / segments\<close>; for \<open>segments = 0\<close> the C++ quotient is a NaN,
  which only affects the coordinates stored in the two vertices of that run.
\<close>

definition cylinder_bottom :: "int \<Rightarrow> int \<Rightarrow> Vertex" where
  "cylinder_bottom segments i =
     (let theta = 2.0 * 3.14159 * real_of_int i / real_of_int segments;
          x = cos theta; z = sin theta
      in Vertex (Vec3 (x * 0.5) (-0.5) (z * 0.5)) (Vec3 x 0 z) (Vec3 1 1 1))"

definition cylinder_top :: "int \<Rightarrow> int \<Rightarrow> Vertex" where
  "cylinder_top segments i =
     (let theta = 2.0 * 3.14159 * real_of_int i / real_of_int segments;
          x = cos theta; z = sin theta
      in Vertex (Vec3 (x * 0.5) 0.5 (z * 0.5)) (Vec3 x 0 z) (Vec3 1 1 1))"

function cylinder_vertices :: "int \<Rightarrow> int \<Rightarrow> Vertex list \<Rightarrow> Vertex list" where
  "cylinder_vertices segments i vs =
     (if i \<le> segments
      then cylinder_vertices segments (i + 1)
             (vs @ [cylinder_bottom segments i, cylinder_top segments i])
      else vs)"
  by pat_completeness auto
termination
  by (relation "measure (\<lambda>(segments, i, vs). nat (segments + 1 - i))") auto

function cylinder_indices :: "int \<Rightarrow> int \<Rightarrow> nat list \<Rightarrow> nat list" where
  "cylinder_indices segments i ixs =
     (if i < segments
      then (let base = i * 2
            in cylinder_indices segments (i + 1)
                 (ixs @ [nat base, nat (base + 1), nat (base + 2),
                         nat (base + 2), nat (base + 1), nat (base + 3)]))
      else ixs)"
  by pat_completeness auto
termination
  by (relation "measure (\<lambda>(segments, i, ixs). nat (segments - i))") auto

declare cylinder_vertices.simps [simp del]
declare cylinder_indices.simps [simp del]

definition generateCylinder :: "int \<Rightarrow> Mesh" where
  "generateCylinder segments = Mesh_new
     \<lparr>vertices := cylinder_vertices segments 0 [],
      indices := cylinder_indices segments 0 []\<rparr>"

text \<open>
  The well-formedness of a triangle list: the index count is a multiple of three and
  every index addresses a vertex of the mesh.
\<close>

definition triangles_ok :: "Mesh \<Rightarrow> bool" where
  "triangles_ok mesh \<longleftrightarrow>
     length (indices mesh) mod 3 = 0 \<and>
     list_all (\<lambda>k. k < length (vertices mesh)) (indices mesh)"

section \<open>The ball (src/src/main.cpp, class MetaBall)\<close>

record MetaBall =
  position :: Vec3
  velocity :: Vec3
  acceleration :: Vec3
  radius :: real
  color :: Vec3
  rotationAngle :: real
  rotationSpeed :: real
  mass :: real
  elasticity :: real
  health :: real
  isAlive :: bool

definition MetaBall_new :: MetaBall where
  "MetaBall_new =
     \<lparr>position = Vec3 0 2 0, velocity = Vec3 0 0 0, acceleration = Vec3 0 0 0,
      radius = 0.5, color = Vec3 0.2 0.8 0.9, rotationAngle = 0, rotationSpeed = 2.0,
      mass = 1.0, elasticity = 0.8, health = 100.0, isAlive = True\<rparr>"

text \<open>
  \<^verbatim>\<open>MetaBall::update\<close> is a sequence of assignments to the members of the ball. Each
  commented block of the source is one function here, applied in the source's order:
  gravity and the Euler step, the rotation, the collision with the plane \<open>y = 0\<close>, and
  the three clamps that keep the ball within bounds.
\<close>

definition integrate :: "real \<Rightarrow> Vec3 \<Rightarrow> MetaBall \<Rightarrow> MetaBall" where
  "integrate deltaTime gravity b =
     (let b1 = b\<lparr>acceleration := gravity\<rparr>;
          b2 = b1\<lparr>velocity := Vec3_plus (velocity b1) (Vec3_times (acceleration b1) deltaTime)\<rparr>
      in b2\<lparr>position := Vec3_plus (position b2) (Vec3_times (velocity b2) deltaTime)\<rparr>)"

definition update_rotation :: "real \<Rightarrow> MetaBall \<Rightarrow> MetaBall" where
  "update_rotation deltaTime b =
     (let b1 = b\<lparr>rotationAngle := rotationAngle b + rotationSpeed b * deltaTime\<rparr>
      in if rotationAngle b1 > 360.0 then b1\<lparr>rotationAngle := rotationAngle b1 - 360.0\<rparr>
         else b1)"

definition ground_collision :: "MetaBall \<Rightarrow> MetaBall" where
  "ground_collision b =
     (if yc (position b) - radius b < 0
      then (let b1 = b\<lparr>position := set_y (position b) (radius b)\<rparr>;
                b2 = b1\<lparr>velocity := set_y (velocity b1) (- yc (velocity b1) * elasticity b1)\<rparr>
            in b2\<lparr>velocity := Vec3_times (velocity b2) 0.95\<rparr>)
      else b)"

definition keep_within_bounds :: "MetaBall \<Rightarrow> MetaBall" where
  "keep_within_bounds b =
     (let b1 = (if xc (position b) < -10 then b\<lparr>position := set_x (position b) (-10)\<rparr> else b);
          b2 = (if xc (position b1) > 10 then b1\<lparr>position := set_x (position b1) 10\<rparr> else b1)
      in if zc (position b2) < -50 then b2\<lparr>position := set_z (position b2) (-50)\<rparr> else b2)"

definition MetaBall_update :: "real \<Rightarrow> Vec3 \<Rightarrow> MetaBall \<Rightarrow> MetaBall" where
  "MetaBall_update deltaTime gravity b =
     (if \<not> isAlive b then b
      else keep_within_bounds (ground_collision (update_rotation deltaTime
             (integrate deltaTime gravity b))))"

text \<open>\<^verbatim>\<open>applyForce\<close> divides with the guarded \<^verbatim>\<open>operator/\<close>.\<close>

definition applyForce :: "Vec3 \<Rightarrow> MetaBall \<Rightarrow> MetaBall option" where
  "applyForce force b =
     do {
       a \<leftarrow> Vec3_divide force (mass b);
       Some (b\<lparr>acceleration := Vec3_plus (acceleration b) a\<rparr>)
     }"

definition takeDamage :: "real \<Rightarrow> MetaBall \<Rightarrow> MetaBall" where
  "takeDamage dmg b =
     (let b1 = b\<lparr>health := health b - dmg\<rparr>
      in if health b1 \<le> 0 then b1\<lparr>isAlive := False\<rparr> else b1)"

section \<open>The orbit camera of the model viewer (src/model_rendering_viewport.cpp)\<close>

text \<open>
  The viewer keeps its camera in global variables, which the GLFW callbacks, the menu
  and the render function update. The record holds the globals the mouse callbacks read
  or write. \<^verbatim>\<open>glm::clamp\<close> is \<open>min (max x minVal) maxVal\<close>, \<^verbatim>\<open>glm::max\<close> and
  \<^verbatim>\<open>glm::min\<close> are \<open>max\<close> and \<open>min\<close>, \<^verbatim>\<open>glm::pi<float>()\<close> is \<open>pi\<close>, a
  \<^verbatim>\<open>glm::vec3\<close> is a \<^typ>\<open>Vec3\<close> with the componentwise operations, and the mouse
  buttons and actions are the constants of the GLFW header.
\<close>

record Viewport =
  cameraDistance :: real
  cameraYaw :: real
  cameraPitch :: real
  cameraTarget :: Vec3
  lastMousePos :: "real \<times> real"
  isMouseDragging :: bool
  dragButton :: int
  isViewportHovered :: bool



definition GLFW_PRESS :: int where "GLFW_PRESS = 1"




text \<open>
  The camera invariant the specification asks of the viewer: the pitch stays strictly
  inside \<open>(-\<pi>/2, \<pi>/2)\<close> and the distance inside \<open>[0.5, 100]\<close>.
\<close>

definition camera_ok :: "Viewport \<Rightarrow> bool" where
  "camera_ok s \<longleftrightarrow>
     \<bar>cameraPitch s\<bar> < pi / 2 \<and> 0.5 \<le> cameraDistance s \<and> cameraDistance s \<le> 100"








text \<open>
  \<^verbatim>\<open>updateCamera\<close> of the viewer, which \<^verbatim>\<open>render3DSceneToViewport\<close> calls before it
  computes the view matrix of a frame.
\<close>

definition Viewport_updateCamera :: "Viewport \<Rightarrow> Viewport" where
  "Viewport_updateCamera s =
     (let maxPitch = pi / 2.0 - 0.01;
          minPitch = - maxPitch;
          s1 = (if cameraPitch s > maxPitch then s\<lparr>cameraPitch := maxPitch\<rparr> else s);
          s2 = (if cameraPitch s1 < minPitch then s1\<lparr>cameraPitch := minPitch\<rparr> else s1);
          s3 = (if cameraDistance s2 < 0.5 then s2\<lparr>cameraDistance := 0.5\<rparr> else s2)
      in if cameraDistance s3 > 100.0 then s3\<lparr>cameraDistance := 100.0\<rparr> else s3)"




section \<open>The terrain height field (src/src/main.cpp, class Terrain)\<close>

record Terrain =
  heightMap :: "real list"
  width :: int
  depth :: int
  gridSize :: real

text \<open>
  The arithmetic the terrain queries rely on.
  \<^item> \<^verbatim>\<open>width/2\<close> divides two \<^verbatim>\<open>int\<close>s and truncates toward zero.
  \<^item> \<^verbatim>\<open>static_cast<int>\<close> of a float drops the fractional part (toward zero) and is
    undefined when the result does not fit an \<^verbatim>\<open>int\<close>.
  \<^item> \<^verbatim>\<open>fmod(a, b)\<close> is \<open>a - b * n\<close> with \<open>n\<close> the quotient \<open>a / b\<close> truncated toward
    zero, so it carries the sign of \<open>a\<close>.
  \<^item> \<^verbatim>\<open>heightMap[i]\<close> outside the vector is undefined.
\<close>

definition int_div :: "int \<Rightarrow> int \<Rightarrow> int" where
  "int_div a b = sgn a * sgn b * (\<bar>a\<bar> div \<bar>b\<bar>)"

definition float_trunc :: "real \<Rightarrow> int" where
  "float_trunc r = (if 0 \<le> r then \<lfloor>r\<rfloor> else - \<lfloor>- r\<rfloor>)"

definition float_to_int :: "real \<Rightarrow> int option" where
  "float_to_int r =
     (let i = float_trunc r in if - (2 ^ 31) \<le> i \<and> i < 2 ^ 31 then Some i else None)"

definition fmod :: "real \<Rightarrow> real \<Rightarrow> real" where
  "fmod a b = a - b * real_of_int (float_trunc (a / b))"

definition elem_at :: "'a list \<Rightarrow> int \<Rightarrow> 'a option" where
  "elem_at xs i = (if 0 \<le> i \<and> i < int (length xs) then Some (xs ! nat i) else None)"

text \<open>
  \<^verbatim>\<open>Terrain::getHeight\<close>. With \<^verbatim>\<open>gridSize\<close> zero the quotient is an infinity or a NaN
  and its conversion to \<^verbatim>\<open>int\<close> is undefined, so the model returns \<open>None\<close> before
  dividing.
\<close>

definition getHeight :: "Terrain \<Rightarrow> real \<Rightarrow> real \<Rightarrow> real option" where
  "getHeight t x z =
     (if gridSize t = 0 then None
      else do {
        xi \<leftarrow> float_to_int ((x + real_of_int (int_div (width t) 2)) / gridSize t);
        zi \<leftarrow> float_to_int ((z + real_of_int (int_div (depth t) 2)) / gridSize t);
        if xi < 0 \<or> xi \<ge> width t - 1 \<or> zi < 0 \<or> zi \<ge> depth t - 1 then Some 0.0
        else do {
          let xRatio = fmod (x + real_of_int (int_div (width t) 2)) (gridSize t) / gridSize t;
          let zRatio = fmod (z + real_of_int (int_div (depth t) 2)) (gridSize t) / gridSize t;
          h1 \<leftarrow> elem_at (heightMap t) (zi * width t + xi);
          h2 \<leftarrow> elem_at (heightMap t) (zi * width t + xi + 1);
          h3 \<leftarrow> elem_at (heightMap t) ((zi + 1) * width t + xi);
          h4 \<leftarrow> elem_at (heightMap t) ((zi + 1) * width t + xi + 1);
          let top = h1 * (1 - xRatio) + h2 * xRatio;
          let bottom = h3 * (1 - xRatio) + h4 * xRatio;
          Some (top * (1 - zRatio) + bottom * zRatio)
        }
      })"

definition getNormal :: "Terrain \<Rightarrow> real \<Rightarrow> real \<Rightarrow> Vec3 option" where
  "getNormal t x z =
     (let eps = 0.1 in
      do {
        hL \<leftarrow> getHeight t (x - eps) z;
        hR \<leftarrow> getHeight t (x + eps) z;
        hD \<leftarrow> getHeight t x (z - eps);
        hU \<leftarrow> getHeight t x (z + eps);
        let normal = Vec3 (hL - hR) (2.0 * eps) (hD - hU);
        Vec3_normalize normal
      })"

text \<open>
  The position of a query point in grid units, and the grid itself: the samples span
  the grid coordinates \<open>0\<close> to \<open>width - 1\<close> and \<open>0\<close> to \<open>depth - 1\<close>. The height map of
  a constructed terrain has \<open>width * depth\<close> entries (\<^verbatim>\<open>heightMap.resize\<close>), its two
  extents are non-negative \<^verbatim>\<open>int\<close>s and its cell size is positive.
\<close>

definition grid_x :: "Terrain \<Rightarrow> real \<Rightarrow> real" where
  "grid_x t x = (x + real_of_int (int_div (width t) 2)) / gridSize t"

definition grid_z :: "Terrain \<Rightarrow> real \<Rightarrow> real" where
  "grid_z t z = (z + real_of_int (int_div (depth t) 2)) / gridSize t"

definition outside_grid :: "Terrain \<Rightarrow> real \<Rightarrow> real \<Rightarrow> bool" where
  "outside_grid t x z \<longleftrightarrow>
     grid_x t x < 0 \<or> grid_x t x > real_of_int (width t - 1) \<or>
     grid_z t z < 0 \<or> grid_z t z > real_of_int (depth t - 1)"

definition Terrain_ok :: "Terrain \<Rightarrow> bool" where
  "Terrain_ok t \<longleftrightarrow>
     0 < gridSize t \<and> 0 \<le> width t \<and> width t < 2 ^ 31 \<and> 0 \<le> depth t \<and> depth t < 2 ^ 31 \<and>
     int (length (heightMap t)) = width t * depth t"

section \<open>Obstacles and trees (src/src/main.cpp)\<close>

record Obstacle =
  o_position :: Vec3
  o_width :: real
  o_height :: real
  o_depth :: real
  o_color :: Vec3
  isActive :: bool
  damage :: real
  o_type :: int

definition Obstacle_new :: Obstacle where
  "Obstacle_new =
     \<lparr>o_position = Vec3 0 0 0, o_width = 1.0, o_height = 1.0, o_depth = 1.0,
      o_color = Vec3 0.9 0.3 0.1, isActive = True, damage = 10.0, o_type = 0\<rparr>"

definition checkCollision :: "Obstacle \<Rightarrow> MetaBall \<Rightarrow> bool" where
  "checkCollision obs ball =
     (if \<not> isActive obs then False
      else
        let closestPoint =
              Vec3 (max (xc (o_position obs) - o_width obs / 2)
                      (min (xc (position ball)) (xc (o_position obs) + o_width obs / 2)))
                   (max (yc (o_position obs))
                      (min (yc (position ball)) (yc (o_position obs) + o_height obs)))
                   (max (zc (o_position obs) - o_depth obs / 2)
                      (min (zc (position ball)) (zc (o_position obs) + o_depth obs / 2)));
            distance = Vec3_length (Vec3_minus closestPoint (position ball))
        in distance < radius ball)"

record Tree =
  t_position :: Vec3
  t_height :: real
  trunkRadius :: real
  foliageRadius :: real
  trunkColor :: Vec3
  foliageColor :: Vec3

definition Tree_new :: Tree where
  "Tree_new =
     \<lparr>t_position = Vec3 0 0 0, t_height = 3.0, trunkRadius = 0.2, foliageRadius = 1.5,
      trunkColor = Vec3 0.4 0.2 0.1, foliageColor = Vec3 0.1 0.5 0.2\<rparr>"

section \<open>The game (src/src/main.cpp, class Game)\<close>

text \<open>
  The record holds the members of \<^verbatim>\<open>Game\<close> and, in \<open>dis_gen\<close> and \<open>rand_gen\<close>, the
  state of the two global random sources the class draws from: the values that the
  coming calls of \<^verbatim>\<open>dis(gen)\<close> and of \<^verbatim>\<open>rand()\<close> return, in order. A draw reads the
  value at index \<open>0\<close> and shifts the sequence.
\<close>

datatype GameState = MENU | PLAYING | GAME_OVER | PAUSED

record Game =
  player :: MetaBall
  terrain :: Terrain
  obstacles :: "Obstacle list"
  collectibles :: "Vec3 list"
  trees :: "Tree list"
  grassPatches :: "Vec3 list"
  gameSpeed :: real
  difficulty :: real
  score :: real
  distance :: real
  gameOver :: bool
  gamePaused :: bool
  inMenu :: bool
  cameraPosition :: Vec3
  g_cameraTarget :: Vec3
  cameraAngle :: real
  g_cameraDistance :: real
  environmentRotation :: real
  environmentRotationSpeed :: real
  currentState :: GameState
  dis_gen :: "nat \<Rightarrow> real"
  rand_gen :: "nat \<Rightarrow> int"

definition dis :: "Game \<Rightarrow> real \<times> Game" where
  "dis g = (dis_gen g 0, g\<lparr>dis_gen := (\<lambda>n. dis_gen g (Suc n))\<rparr>)"

definition rand :: "Game \<Rightarrow> int \<times> Game" where
  "rand g = (rand_gen g 0, g\<lparr>rand_gen := (\<lambda>n. rand_gen g (Suc n))\<rparr>)"

text \<open>
  The four generators append \<open>count\<close> entities; each is a counting loop over \<open>i\<close>
  whose body, one function per generator here, builds the entity of index \<open>i\<close> and
  pushes it. Draws are taken in the order of the statements. Within the constructor call
  of a colour C++ leaves the order of the draws open; they are taken from the last
  argument to the first, the order in which g++ evaluates the arguments.
\<close>

definition add_obstacle :: "int \<Rightarrow> Game \<Rightarrow> Game" where
  "add_obstacle i g =
     (let (r0, g0) = rand g;
          (r1, g1) = dis g0;
          (r2, g2) = dis g1;
          (r3, g3) = dis g2;
          (r4, g4) = dis g3;
          (r5, g5) = dis g4;
          (r6, g6) = dis g5;
          (r7, g7) = dis g6;
          obs = Obstacle_new
            \<lparr>o_type := r0 mod 3,
             o_position := Vec3 ((r1 - 0.5) * 3.0) 0 (- 30.0 - real_of_int i * 15.0),
             o_width := 0.5 + r2 * 1.0,
             o_height := 0.5 + r3 * 2.0,
             o_depth := 0.5 + r4 * 1.0,
             o_color := Vec3 0.9 (0.3 + r6 * 0.2) (0.1 + r5 * 0.1),
             damage := 10.0 + r7 * 10.0\<rparr>
      in g7\<lparr>obstacles := obstacles g7 @ [obs]\<rparr>)"

function generateObstacles_from :: "int \<Rightarrow> int \<Rightarrow> Game \<Rightarrow> Game" where
  "generateObstacles_from count i g =
     (if i < count then generateObstacles_from count (i + 1) (add_obstacle i g) else g)"
  by pat_completeness auto
termination
  by (relation "measure (\<lambda>(count, i, g). nat (count - i))") auto

definition generateObstacles :: "int \<Rightarrow> Game \<Rightarrow> Game" where
  "generateObstacles count g = generateObstacles_from count 0 g"

definition add_collectible :: "int \<Rightarrow> Game \<Rightarrow> Game" where
  "add_collectible i g =
     (let (r1, g1) = dis g;
          (r2, g2) = dis g1;
          collectible = Vec3 ((r1 - 0.5) * 6.0) (1.0 + r2 * 2.0) (- 20.0 - real_of_int i * 10.0)
      in g2\<lparr>collectibles := collectibles g2 @ [collectible]\<rparr>)"

function generateCollectibles_from :: "int \<Rightarrow> int \<Rightarrow> Game \<Rightarrow> Game" where
  "generateCollectibles_from count i g =
     (if i < count then generateCollectibles_from count (i + 1) (add_collectible i g) else g)"
  by pat_completeness auto
termination
  by (relation "measure (\<lambda>(count, i, g). nat (count - i))") auto

definition generateCollectibles :: "int \<Rightarrow> Game \<Rightarrow> Game" where
  "generateCollectibles count g = generateCollectibles_from count 0 g"

definition add_tree :: "int \<Rightarrow> Game \<Rightarrow> Game option" where
  "add_tree i g =
     (let width = 200;
          (r1, g1) = dis g;
          side = (if r1 > 0.5 then 1.0 else - 1.0);
          (r2, g2) = dis g1;
          x = (real_of_int (int_div width 2) + 2.0 + r2 * 10.0) * side;
          z = - 20.0 - real_of_int i * 20.0
      in case getHeight (terrain g2) x z of
           None \<Rightarrow> None
         | Some y \<Rightarrow>
             (let (r3, g3) = dis g2;
                  (r4, g4) = dis g3;
                  (r5, g5) = dis g4;
                  (r6, g6) = dis g5;
                  (r7, g7) = dis g6;
                  (r8, g8) = dis g7;
                  tree = Tree_new
                    \<lparr>t_position := Vec3 x y z,
                     t_height := 2.0 + r3 * 4.0,
                     trunkRadius := 0.1 + r4 * 0.2,
                     foliageRadius := 0.8 + r5 * 1.2,
                     foliageColor := Vec3 (0.0 + r8 * 0.2) (0.4 + r7 * 0.4) (0.0 + r6 * 0.2)\<rparr>
              in Some (g8\<lparr>trees := trees g8 @ [tree]\<rparr>)))"

function generateTrees_from :: "int \<Rightarrow> int \<Rightarrow> Game \<Rightarrow> Game option" where
  "generateTrees_from count i g =
     (if i < count
      then (case add_tree i g of
              None \<Rightarrow> None
            | Some g' \<Rightarrow> generateTrees_from count (i + 1) g')
      else Some g)"
  by pat_completeness auto
termination
  by (relation "measure (\<lambda>(count, i, g). nat (count - i))") auto

definition generateTrees :: "int \<Rightarrow> Game \<Rightarrow> Game option" where
  "generateTrees count g = generateTrees_from count 0 g"

definition add_grass :: "int \<Rightarrow> Game \<Rightarrow> Game option" where
  "add_grass i g =
     (let width = 200;
          (r1, g1) = dis g;
          side = (if r1 > 0.5 then 1.0 else - 1.0);
          (r2, g2) = dis g1;
          x = (real_of_int (int_div width 2) + 1.0 + r2 * 8.0) * side;
          z = - 10.0 - real_of_int i * 8.0
      in case getHeight (terrain g2) x z of
           None \<Rightarrow> None
         | Some h \<Rightarrow> Some (g2\<lparr>grassPatches := grassPatches g2 @ [Vec3 x (h + 0.1) z]\<rparr>))"

function generateGrass_from :: "int \<Rightarrow> int \<Rightarrow> Game \<Rightarrow> Game option" where
  "generateGrass_from count i g =
     (if i < count
      then (case add_grass i g of
              None \<Rightarrow> None
            | Some g' \<Rightarrow> generateGrass_from count (i + 1) g')
      else Some g)"
  by pat_completeness auto
termination
  by (relation "measure (\<lambda>(count, i, g). nat (count - i))") auto

definition generateGrass :: "int \<Rightarrow> Game \<Rightarrow> Game option" where
  "generateGrass count g = generateGrass_from count 0 g"

declare generateObstacles_from.simps [simp del]
declare generateCollectibles_from.simps [simp del]
declare generateTrees_from.simps [simp del]
declare generateGrass_from.simps [simp del]

text \<open>
  \<^verbatim>\<open>Game::update\<close>, block by block. The player step is \<^verbatim>\<open>player.update\<close> with the
  gravity \<open>(0, -9.8, 0)\<close> followed by the terrain collision, which lifts the ball onto
  the terrain, sets \<^verbatim>\<open>velocity.y\<close> to zero and removes a tenth of the velocity along
  the terrain normal.
\<close>

definition terrain_collision :: "Terrain \<Rightarrow> MetaBall \<Rightarrow> MetaBall option" where
  "terrain_collision t p =
     (case getHeight t (xc (position p)) (zc (position p)) of
        None \<Rightarrow> None
      | Some terrainHeight \<Rightarrow>
          if yc (position p) - radius p < terrainHeight
          then (let p1 = p\<lparr>position := set_y (position p) (terrainHeight + radius p)\<rparr>;
                    p2 = p1\<lparr>velocity := set_y (velocity p1) 0\<rparr>
                in case getNormal t (xc (position p2)) (zc (position p2)) of
                     None \<Rightarrow> None
                   | Some normal \<Rightarrow>
                       Some (p2\<lparr>velocity :=
                         Vec3_minus (velocity p2)
                           (Vec3_times (Vec3_times normal (Vec3_dot (velocity p2) normal)) 0.1)\<rparr>))
          else Some p)"

definition player_step :: "real \<Rightarrow> Terrain \<Rightarrow> MetaBall \<Rightarrow> MetaBall option" where
  "player_step deltaTime t p =
     (let gravity = Vec3 0 (- 9.8) 0
      in terrain_collision t (MetaBall_update deltaTime gravity p))"

definition update_progression :: "real \<Rightarrow> Game \<Rightarrow> Game" where
  "update_progression deltaTime g =
     (let g1 = g\<lparr>distance := distance g + gameSpeed g * deltaTime\<rparr>;
          g2 = g1\<lparr>score := score g1 + gameSpeed g1 * deltaTime * 0.1\<rparr>;
          g3 = g2\<lparr>difficulty := difficulty g2 + deltaTime * 0.01\<rparr>
      in g3\<lparr>gameSpeed := gameSpeed g3 + deltaTime * 0.1\<rparr>)"

text \<open>
  The loop over the obstacles updates the obstacle it visits, the player and the
  score; the loop over the collectibles erases the ones picked up.
\<close>

fun check_obstacles :: "Obstacle list \<Rightarrow> MetaBall \<Rightarrow> real \<Rightarrow> Obstacle list \<times> MetaBall \<times> real" where
  "check_obstacles [] p sc = ([], p, sc)"
| "check_obstacles (obs # rest) p sc =
     (if checkCollision obs p
      then (let p1 = takeDamage (damage obs) p;
                p2 = p1\<lparr>velocity := Vec3_times (velocity p1) (- 0.5)\<rparr>;
                obs1 = obs\<lparr>isActive := False\<rparr>;
                sc1 = sc - damage obs1 * 2;
                sc2 = (if sc1 < 0 then 0 else sc1)
            in case check_obstacles rest p2 sc2 of
                 (rest', p', sc') \<Rightarrow> (obs1 # rest', p', sc'))
      else (case check_obstacles rest p sc of
              (rest', p', sc') \<Rightarrow> (obs # rest', p', sc')))"

fun check_collectibles :: "Vec3 list \<Rightarrow> MetaBall \<Rightarrow> real \<Rightarrow> Vec3 list \<times> MetaBall \<times> real" where
  "check_collectibles [] p sc = ([], p, sc)"
| "check_collectibles (c # rest) p sc =
     (let dist = Vec3_length (Vec3_minus (position p) c)
      in if dist < radius p + 0.5
         then check_collectibles rest (p\<lparr>health := min (health p + 10.0) 100.0\<rparr>) (sc + 50)
         else (case check_collectibles rest p sc of
                 (rest', p', sc') \<Rightarrow> (c # rest', p', sc')))"

definition check_game_over :: "Game \<Rightarrow> Game" where
  "check_game_over g =
     (if \<not> isAlive (player g) \<or> health (player g) \<le> 0
      then g\<lparr>currentState := GAME_OVER, gameOver := True\<rparr>
      else g)"

definition updateCamera :: "real \<Rightarrow> Game \<Rightarrow> Game" where
  "updateCamera deltaTime g =
     (let g1 = g\<lparr>cameraAngle := cameraAngle g + deltaTime * 0.5\<rparr>;
          behindDistance = 8.0 :: real;
          height = 4.0;
          g2 = g1\<lparr>g_cameraTarget :=
                 Vec3_lerp (g_cameraTarget g1) (position (player g1)) (deltaTime * 5.0)\<rparr>;
          offset = Vec3 (sin (cameraAngle g2) * g_cameraDistance g2) height
                        (cos (cameraAngle g2) * g_cameraDistance g2)
      in g2\<lparr>cameraPosition := Vec3_plus (g_cameraTarget g2) offset\<rparr>)"

text \<open>
  The last block generates more entities ahead of the player. \<^verbatim>\<open>back()\<close> of an empty
  vector is undefined; the collectibles are tested for emptiness first.
\<close>

definition vector_back :: "'a list \<Rightarrow> 'a option" where
  "vector_back xs = (if xs = [] then None else Some (last xs))"

definition generate_more :: "Game \<Rightarrow> Game option" where
  "generate_more g =
     do {
       ob \<leftarrow> vector_back (obstacles g);
       let g1 = (if zc (o_position ob) > zc (position (player g)) - 100
                 then generateObstacles 5 g else g);
       let g2 = (if collectibles g1 = [] \<or>
                    zc (last (collectibles g1)) > zc (position (player g1)) - 80
                 then generateCollectibles 3 g1 else g1);
       tr \<leftarrow> vector_back (trees g2);
       g3 \<leftarrow> (if zc (t_position tr) > zc (position (player g2)) - 150
              then generateTrees 5 g2 else Some g2);
       gr \<leftarrow> vector_back (grassPatches g3);
       if zc gr > zc (position (player g3)) - 100 then generateGrass 10 g3 else Some g3
     }"

definition Game_update :: "real \<Rightarrow> Game \<Rightarrow> Game option" where
  "Game_update deltaTime g =
     (if currentState g \<noteq> PLAYING then Some g
      else
        let g1 = g\<lparr>environmentRotation :=
                     environmentRotation g + environmentRotationSpeed g * deltaTime\<rparr>;
            g2 = (if environmentRotation g1 > 360.0
                  then g1\<lparr>environmentRotation := environmentRotation g1 - 360.0\<rparr> else g1)
        in case player_step deltaTime (terrain g2) (player g2) of
             None \<Rightarrow> None
           | Some p \<Rightarrow>
               (let g3 = update_progression deltaTime (g2\<lparr>player := p\<rparr>);
                    (obs', p1, sc1) = check_obstacles (obstacles g3) (player g3) (score g3);
                    (cols', p2, sc2) = check_collectibles (collectibles g3) p1 sc1;
                    g4 = g3\<lparr>obstacles := obs', collectibles := cols', player := p2, score := sc2\<rparr>;
                    g5 = check_game_over g4;
                    g6 = updateCamera deltaTime g5
                in generate_more g6))"

text \<open>
  A small state of the game in play, used to run the update on concrete data: a flat
  two-by-two terrain, the ball at its start position inside an active obstacle, and
  one further obstacle, collectible, tree and grass patch far ahead.
\<close>

definition Game_sample :: Game where
  "Game_sample =
     \<lparr>player = MetaBall_new,
      terrain = \<lparr>heightMap = [0, 0, 0, 0], width = 2, depth = 2, gridSize = 1\<rparr>,
      obstacles =
        [Obstacle_new\<lparr>o_height := 4.0\<rparr>,
         Obstacle_new\<lparr>o_position := Vec3 0 0 (- 1000), isActive := False\<rparr>],
      collectibles = [Vec3 0 2 (- 1000)],
      trees = [Tree_new\<lparr>t_position := Vec3 102 0 (- 1000)\<rparr>],
      grassPatches = [Vec3 101 0.1 (- 1000)],
      gameSpeed = 10.0, difficulty = 1.0, score = 5, distance = 0,
      gameOver = False, gamePaused = False, inMenu = False,
      cameraPosition = Vec3 0 5 10, g_cameraTarget = Vec3 0 2 0,
      cameraAngle = 0, g_cameraDistance = 8.0,
      environmentRotation = 0, environmentRotationSpeed = 0.1,
      currentState = PLAYING,
      dis_gen = (\<lambda>n. 0.5), rand_gen = (\<lambda>n. 0)\<rparr>"

section \<open>The OBJ loader (src/src/load_obj_model.cpp, OBJLoader::loadOBJ)\<close>

datatype Vec2 = Vec2 (uc: real) (vc: real)

datatype ObjVertex =
  ObjVertex (ov_position: Vec3) (ov_normal: Vec3) (ov_texcoord: Vec2) (ov_color: Vec3)

record ObjMesh =
  m_vertices :: "ObjVertex list"
  m_indices :: "nat list"
  m_color :: Vec3
  m_VAO :: nat
  m_VBO :: nat
  m_EBO :: nat

text \<open>
  A call of \<^verbatim>\<open>loadOBJ\<close> either returns its \<^verbatim>\<open>bool\<close> and leaves the mesh in some state,
  or it does not return: \<^verbatim>\<open>std::stoi\<close> throws \<^verbatim>\<open>std::invalid_argument\<close> or
  \<^verbatim>\<open>std::out_of_range\<close>, which nothing catches, or an index expression reads outside
  its vector, which is undefined.
\<close>

datatype obj_error = InvalidArgument | OutOfRange | UndefinedBehaviour

subsection \<open>Reading text\<close>

text \<open>
  \<^verbatim>\<open>std::getline(file, line)\<close> yields the pieces between newline characters; a final
  piece is yielded only when it is not empty. \<^verbatim>\<open>iss >> token\<close> skips white space and
  takes the characters up to the next white space; the token is empty when none are
  left. \<^verbatim>\<open>std::getline(vss, s, '/')\<close> takes the characters up to the next slash.
\<close>

function getlines :: "string \<Rightarrow> string list" where
  "getlines s =
     (if s = [] then []
      else takeWhile (\<lambda>c. c \<noteq> CHR 0x0A) s #
           getlines (drop 1 (dropWhile (\<lambda>c. c \<noteq> CHR 0x0A) s)))"
  by pat_completeness auto
termination
proof (relation "measure length")
  fix s :: string
  assume "s \<noteq> []"
  then have "0 < length s"
    by simp
  moreover have "length (dropWhile (\<lambda>c. c \<noteq> CHR 0x0A) s) \<le> length s"
    by (rule length_dropWhile_le)
  ultimately have "length (dropWhile (\<lambda>c. c \<noteq> CHR 0x0A) s) - 1 < length s"
    by linarith
  then show "(drop 1 (dropWhile (\<lambda>c. c \<noteq> CHR 0x0A) s), s) \<in> measure length"
    by simp
qed simp

declare getlines.simps [simp del]

definition isspace :: "char \<Rightarrow> bool" where
  "isspace c \<longleftrightarrow> c \<in> {CHR 0x20, CHR 0x09, CHR 0x0A, CHR 0x0B, CHR 0x0C, CHR 0x0D}"

definition read_token :: "string \<Rightarrow> string \<times> string" where
  "read_token s =
     (let s1 = dropWhile isspace s
      in (takeWhile (\<lambda>c. \<not> isspace c) s1, dropWhile (\<lambda>c. \<not> isspace c) s1))"

definition read_field :: "string \<Rightarrow> string \<times> string" where
  "read_field s = (takeWhile (\<lambda>c. c \<noteq> CHR ''/'') s, drop 1 (dropWhile (\<lambda>c. c \<noteq> CHR ''/'') s))"

text \<open>
  \<^verbatim>\<open>std::stoi\<close>: optional white space, an optional sign and decimal digits; it throws
  when there is no digit or when the value does not fit an \<^verbatim>\<open>int\<close>. The index
  expressions subtract one, which overflows for the least \<^verbatim>\<open>int\<close>.
\<close>

definition isdigit :: "char \<Rightarrow> bool" where
  "isdigit c \<longleftrightarrow> c \<in> set ''0123456789''"

definition digit_value :: "char \<Rightarrow> int" where
  "digit_value c = int (of_char c) - 48"

definition stoi :: "string \<Rightarrow> obj_error + int" where
  "stoi s =
     (let s1 = dropWhile isspace s;
          (sign, s2) =
            (case s1 of
               c # r \<Rightarrow> if c = CHR ''-'' then (- 1, r) else if c = CHR ''+'' then (1, r) else (1, s1)
             | [] \<Rightarrow> (1, s1));
          ds = takeWhile isdigit s2
      in if ds = [] then Inl InvalidArgument
         else (let v = sign * foldl (\<lambda>a c. 10 * a + digit_value c) 0 ds
               in if v < - (2 ^ 31) \<or> 2 ^ 31 \<le> v then Inl OutOfRange else Inr v))"

definition stoi_minus_1 :: "string \<Rightarrow> obj_error + int" where
  "stoi_minus_1 s =
     (case stoi s of
        Inl e \<Rightarrow> Inl e
      | Inr v \<Rightarrow> if v = - (2 ^ 31) then Inl UndefinedBehaviour else Inr (v - 1))"

subsection \<open>The parser state and the face vertices\<close>

record obj_state =
  positions :: "Vec3 list"
  normals :: "Vec3 list"
  texcoords :: "Vec2 list"
  s_vertices :: "ObjVertex list"
  s_indices :: "nat list"

definition obj_state_initial :: obj_state where
  "obj_state_initial =
     \<lparr>positions = [], normals = [], texcoords = [], s_vertices = [], s_indices = []\<rparr>"

text \<open>
  The lambda \<^verbatim>\<open>parseVertex\<close>. The position is read with \<^verbatim>\<open>positions[posIdx]\<close>, without
  a check; the normal and the texture coordinate are read only when their index is in
  range and default to \<open>(0, 1, 0)\<close> and \<open>(0, 0)\<close>.
\<close>

definition parseVertex :: "obj_state \<Rightarrow> string \<Rightarrow> obj_error + ObjVertex" where
  "parseVertex st vertexStr =
     (let (posStr, r1) = read_field vertexStr;
          (texStr, r2) = read_field r1;
          (normStr, r3) = read_field r2
      in case stoi_minus_1 posStr of
           Inl e \<Rightarrow> Inl e
         | Inr posIdx \<Rightarrow>
             (case (if texStr = [] then Inr (- 1) else stoi_minus_1 texStr) of
                Inl e \<Rightarrow> Inl e
              | Inr texIdx \<Rightarrow>
                  (case (if normStr = [] then Inr (- 1) else stoi_minus_1 normStr) of
                     Inl e \<Rightarrow> Inl e
                   | Inr normIdx \<Rightarrow>
                       (case elem_at (positions st) posIdx of
                          None \<Rightarrow> Inl UndefinedBehaviour
                        | Some pos \<Rightarrow>
                            (let norm = (if normIdx \<ge> 0 \<and> normIdx < int (length (normals st))
                                         then normals st ! nat normIdx else Vec3 0 1 0);
                                 tex = (if texIdx \<ge> 0 \<and> texIdx < int (length (texcoords st))
                                        then texcoords st ! nat texIdx else Vec2 0 0);
                                 color = Vec3 \<bar>sin (xc pos * 2.0)\<bar> \<bar>cos (yc pos * 2.0)\<bar>
                                              \<bar>sin (zc pos * 2.0)\<bar>
                             in Inr (ObjVertex pos norm tex color))))))"
subsection \<open>One line of the file\<close>

text \<open>
  The conversion of text to \<^verbatim>\<open>float\<close> by \<^verbatim>\<open>iss >> x\<close> belongs to the stream library
  and is a parameter \<open>read_float\<close> of the model, applied to the tokens that follow the
  prefix; a missing token is the empty string.
\<close>

definition read_floats3 :: "(string \<Rightarrow> real) \<Rightarrow> string \<Rightarrow> Vec3" where
  "read_floats3 read_float s =
     (let (t1, r1) = read_token s;
          (t2, r2) = read_token r1;
          (t3, r3) = read_token r2
      in Vec3 (read_float t1) (read_float t2) (read_float t3))"

definition read_floats2 :: "(string \<Rightarrow> real) \<Rightarrow> string \<Rightarrow> Vec2" where
  "read_floats2 read_float s =
     (let (t1, r1) = read_token s;
          (t2, r2) = read_token r1
      in Vec2 (read_float t1) (read_float t2))"

text \<open>
  A face line. The three vertex strings are extracted first, then parsed in order; a
  missing one is empty and makes \<^verbatim>\<open>std::stoi\<close> throw. \<^verbatim>\<open>iss.eof()\<close> holds when the
  third string ended the line; otherwise a fourth string is extracted and, when it is
  not empty, parsed as the fourth corner of a quad.
\<close>

definition parse_face :: "obj_state \<Rightarrow> string \<Rightarrow> obj_error + obj_state" where
  "parse_face st s =
     (let (vertex1, r1) = read_token s;
          (vertex2, r2) = read_token r1;
          (vertex3, r3) = read_token r2
      in case parseVertex st vertex1 of
           Inl e \<Rightarrow> Inl e
         | Inr v1 \<Rightarrow>
             (case parseVertex st vertex2 of
                Inl e \<Rightarrow> Inl e
              | Inr v2 \<Rightarrow>
                  (case parseVertex st vertex3 of
                     Inl e \<Rightarrow> Inl e
                   | Inr v3 \<Rightarrow>
                       (let baseIndex = length (s_vertices st);
                            st1 = st\<lparr>s_vertices := s_vertices st @ [v1, v2, v3],
                                     s_indices := s_indices st @
                                       [baseIndex, baseIndex + 1, baseIndex + 2]\<rparr>
                        in if r3 \<noteq> []
                           then (let (vertex4, r4) = read_token r3
                                 in if vertex4 \<noteq> []
                                    then (case parseVertex st1 vertex4 of
                                            Inl e \<Rightarrow> Inl e
                                          | Inr v4 \<Rightarrow>
                                              Inr (st1\<lparr>s_vertices := s_vertices st1 @ [v4],
                                                       s_indices := s_indices st1 @
                                                         [baseIndex, baseIndex + 2, baseIndex + 3]\<rparr>))
                                    else Inr st1)
                           else Inr st1))))"

definition parse_line :: "(string \<Rightarrow> real) \<Rightarrow> obj_state \<Rightarrow> string \<Rightarrow> obj_error + obj_state" where
  "parse_line read_float st line =
     (let (prefix, rest) = read_token line
      in if prefix = ''v''
         then Inr (st\<lparr>positions := positions st @ [read_floats3 read_float rest]\<rparr>)
         else if prefix = ''vn''
         then Inr (st\<lparr>normals := normals st @ [read_floats3 read_float rest]\<rparr>)
         else if prefix = ''vt''
         then Inr (st\<lparr>texcoords := texcoords st @ [read_floats2 read_float rest]\<rparr>)
         else if prefix = ''f''
         then parse_face st rest
         else Inr st)"

fun parse_lines :: "(string \<Rightarrow> real) \<Rightarrow> obj_state \<Rightarrow> string list \<Rightarrow> obj_error + obj_state" where
  "parse_lines read_float st [] = Inr st"
| "parse_lines read_float st (line # rest) =
     (case parse_line read_float st line of
        Inl e \<Rightarrow> Inl e
      | Inr st' \<Rightarrow> parse_lines read_float st' rest)"

subsection \<open>Normals computed from the faces\<close>

definition set_normal :: "ObjVertex \<Rightarrow> Vec3 \<Rightarrow> ObjVertex" where
  "set_normal v n = ObjVertex (ov_position v) n (ov_texcoord v) (ov_color v)"

definition add_normal :: "ObjVertex list \<Rightarrow> nat \<Rightarrow> Vec3 \<Rightarrow> (ObjVertex list) option" where
  "add_normal vs i n =
     (if i < length vs then Some (vs[i := set_normal (vs ! i) (Vec3_plus (ov_normal (vs ! i)) n)])
      else None)"

fun accumulate_normals :: "nat list \<Rightarrow> ObjVertex list \<Rightarrow> (ObjVertex list) option" where
  "accumulate_normals (i1 # i2 # i3 # rest) vs =
     (if i1 < length vs \<and> i2 < length vs \<and> i3 < length vs
      then (let v1 = ov_position (vs ! i1);
                v2 = ov_position (vs ! i2);
                v3 = ov_position (vs ! i3);
                edge1 = Vec3_minus v2 v1;
                edge2 = Vec3_minus v3 v1
            in do {
                 normal \<leftarrow> ObjVec3_normalize (Vec3_cross edge1 edge2);
                 vs1 \<leftarrow> add_normal vs i1 normal;
                 vs2 \<leftarrow> add_normal vs1 i2 normal;
                 vs3 \<leftarrow> add_normal vs2 i3 normal;
                 accumulate_normals rest vs3
               })
      else None)"
| "accumulate_normals [] vs = Some vs"
| "accumulate_normals ixs vs = None"

fun normalize_normals :: "ObjVertex list \<Rightarrow> (ObjVertex list) option" where
  "normalize_normals [] = Some []"
| "normalize_normals (v # vs) =
     do {
       n \<leftarrow> ObjVec3_normalize (ov_normal v);
       vs' \<leftarrow> normalize_normals vs;
       Some (set_normal v n # vs')
     }"

definition calculateNormals :: "ObjVertex list \<Rightarrow> nat list \<Rightarrow> (ObjVertex list) option" where
  "calculateNormals vs ixs =
     do {
       vs1 \<leftarrow> accumulate_normals ixs (map (\<lambda>v. set_normal v (Vec3 0 0 0)) vs);
       normalize_normals vs1
     }"

subsection \<open>loadOBJ\<close>

text \<open>
  The first argument after \<open>read_float\<close> is what \<^verbatim>\<open>std::ifstream file(filepath)\<close>
  finds: \<open>None\<close> when the file cannot be opened, its content otherwise. The result is
  the returned \<^verbatim>\<open>bool\<close> together with the mesh after the call.
\<close>

definition loadOBJ ::
  "(string \<Rightarrow> real) \<Rightarrow> string option \<Rightarrow> ObjMesh \<Rightarrow> obj_error + (bool \<times> ObjMesh)" where
  "loadOBJ read_float file mesh =
     (case file of
        None \<Rightarrow> Inr (False, mesh)
      | Some content \<Rightarrow>
          (case parse_lines read_float obj_state_initial (getlines content) of
             Inl e \<Rightarrow> Inl e
           | Inr st \<Rightarrow>
               if s_vertices st = [] then Inr (False, mesh)
               else (case (if normals st = [] then calculateNormals (s_vertices st) (s_indices st)
                           else Some (s_vertices st)) of
                       None \<Rightarrow> Inl UndefinedBehaviour
                     | Some vs \<Rightarrow>
                         Inr (True, mesh\<lparr>m_vertices := vs, m_indices := s_indices st\<rparr>))))"

section \<open>Construction and control of the game (src/src/main.cpp)\<close>

text \<open>
  \<^verbatim>\<open>Terrain::generateHeightMap\<close> fills the height map row by row, \<open>z\<close> in the outer and
  \<open>x\<close> in the inner loop, so that the cell \<open>(x, z)\<close> is entry \<open>z * width + x\<close>; each cell
  takes one draw of \<^verbatim>\<open>dis(gen)\<close>. The constructor returns the terrain and the random
  source after the draws.
\<close>

definition terrain_height :: "int \<Rightarrow> int \<Rightarrow> int \<Rightarrow> real \<Rightarrow> real" where
  "terrain_height w x z r =
     (let h0 = 0;
          h1 = h0 + sin (real_of_int x * 0.1) * cos (real_of_int z * 0.1) * 0.5;
          h2 = h1 + sin (real_of_int x * 0.05 + real_of_int z * 0.03) * 0.3;
          roadWidth = 4.0;
          distanceFromCenter = \<bar>real_of_int (x - int_div w 2)\<bar>;
          h3 = (if distanceFromCenter < roadWidth then 0.1
                else h2 - (distanceFromCenter - roadWidth) * 0.1)
      in h3 + (r - 0.5) * 0.1)"

function generateHeightMap_x ::
  "int \<Rightarrow> int \<Rightarrow> int \<Rightarrow> real list \<times> (nat \<Rightarrow> real) \<Rightarrow> real list \<times> (nat \<Rightarrow> real)" where
  "generateHeightMap_x w z x (hm, src) =
     (if x < w
      then generateHeightMap_x w z (x + 1)
             (hm @ [terrain_height w x z (src 0)], (\<lambda>n. src (Suc n)))
      else (hm, src))"
  by pat_completeness auto
termination
  by (relation "measure (\<lambda>(w, z, x, acc). nat (w - x))") auto

function generateHeightMap_z ::
  "int \<Rightarrow> int \<Rightarrow> int \<Rightarrow> real list \<times> (nat \<Rightarrow> real) \<Rightarrow> real list \<times> (nat \<Rightarrow> real)" where
  "generateHeightMap_z w d z acc =
     (if z < d then generateHeightMap_z w d (z + 1) (generateHeightMap_x w z 0 acc) else acc)"
  by pat_completeness auto
termination
  by (relation "measure (\<lambda>(w, d, z, acc). nat (d - z))") auto

declare generateHeightMap_x.simps [simp del]
declare generateHeightMap_z.simps [simp del]

definition Terrain_new :: "int \<Rightarrow> int \<Rightarrow> real \<Rightarrow> (nat \<Rightarrow> real) \<Rightarrow> Terrain \<times> (nat \<Rightarrow> real)" where
  "Terrain_new w d grid src =
     (let (hm, src') = generateHeightMap_z w d 0 ([], src)
      in (\<lparr>heightMap = hm, width = w, depth = d, gridSize = grid\<rparr>, src'))"

definition resetGame :: "Game \<Rightarrow> Game option" where
  "resetGame g =
     (let g1 = g\<lparr>player := MetaBall_new\<rparr>;
          (t, src) = Terrain_new 100 200 1.0 (dis_gen g1);
          g2 = g1\<lparr>terrain := t, dis_gen := src\<rparr>;
          g3 = g2\<lparr>obstacles := [], collectibles := [], trees := [], grassPatches := []\<rparr>;
          g4 = g3\<lparr>gameSpeed := 10.0, difficulty := 1.0, score := 0, distance := 0,
                   gameOver := False, gamePaused := False, environmentRotation := 0,
                   currentState := PLAYING\<rparr>;
          g5 = generateObstacles 20 g4;
          g6 = generateCollectibles 10 g5
      in case generateTrees 30 g6 of
           None \<Rightarrow> None
         | Some g7 \<Rightarrow> generateGrass 50 g7)"

text \<open>
  The constructor initialises the members (the terrain member by the default
  \<^verbatim>\<open>Terrain()\<close>, which already generates a height map), calls \<^verbatim>\<open>resetGame\<close> and places
  the camera. Its arguments are the two random sources as they are at that moment.
\<close>

definition Game_new :: "(nat \<Rightarrow> real) \<Rightarrow> (nat \<Rightarrow> int) \<Rightarrow> Game option" where
  "Game_new src rsrc =
     (let (t, src') = Terrain_new 100 200 1.0 src;
          g0 = \<lparr>player = MetaBall_new, terrain = t,
                obstacles = [], collectibles = [], trees = [], grassPatches = [],
                gameSpeed = 10.0, difficulty = 1.0, score = 0, distance = 0,
                gameOver = False, gamePaused = False, inMenu = True,
                cameraPosition = Vec3 0 0 0, g_cameraTarget = Vec3 0 0 0,
                cameraAngle = 0, g_cameraDistance = 8.0,
                environmentRotation = 0, environmentRotationSpeed = 0.1,
                currentState = MENU, dis_gen = src', rand_gen = rsrc\<rparr>
      in case resetGame g0 of
           None \<Rightarrow> None
         | Some g1 \<Rightarrow>
             (let g2 = g1\<lparr>cameraPosition := Vec3 0 5 10\<rparr>
              in Some (g2\<lparr>g_cameraTarget := position (player g2)\<rparr>)))"

definition togglePause :: "Game \<Rightarrow> Game" where
  "togglePause g =
     (if currentState g = PLAYING then g\<lparr>currentState := PAUSED, gamePaused := True\<rparr>
      else if currentState g = PAUSED then g\<lparr>currentState := PLAYING, gamePaused := False\<rparr>
      else g)"

definition startGame :: "Game \<Rightarrow> Game option" where
  "startGame g =
     (case resetGame g of
        None \<Rightarrow> None
      | Some g1 \<Rightarrow> Some (g1\<lparr>currentState := PLAYING, inMenu := False\<rparr>))"

definition returnToMenu :: "Game \<Rightarrow> Game" where
  "returnToMenu g = g\<lparr>currentState := MENU, inMenu := True\<rparr>"

text \<open>The key codes are those of the GLFW header.\<close>

definition GLFW_KEY_SPACE :: int where "GLFW_KEY_SPACE = 32"
definition GLFW_KEY_A :: int where "GLFW_KEY_A = 65"
definition GLFW_KEY_D :: int where "GLFW_KEY_D = 68"
definition GLFW_KEY_R :: int where "GLFW_KEY_R = 82"
definition GLFW_KEY_S :: int where "GLFW_KEY_S = 83"
definition GLFW_KEY_W :: int where "GLFW_KEY_W = 87"
definition GLFW_KEY_ESCAPE :: int where "GLFW_KEY_ESCAPE = 256"
definition GLFW_KEY_RIGHT :: int where "GLFW_KEY_RIGHT = 262"
definition GLFW_KEY_LEFT :: int where "GLFW_KEY_LEFT = 263"
definition GLFW_KEY_DOWN :: int where "GLFW_KEY_DOWN = 264"
definition GLFW_KEY_UP :: int where "GLFW_KEY_UP = 265"

definition push :: "Vec3 \<Rightarrow> Game \<Rightarrow> Game option" where
  "push force g =
     (case applyForce force (player g) of
        None \<Rightarrow> None
      | Some p \<Rightarrow> Some (g\<lparr>player := p\<rparr>))"

definition handleInput :: "int \<Rightarrow> int \<Rightarrow> Game \<Rightarrow> Game option" where
  "handleInput key action g =
     (if currentState g = PLAYING \<and> action = GLFW_PRESS
      then (let forceStrength = 15.0
            in if key = GLFW_KEY_W \<or> key = GLFW_KEY_UP
               then push (Vec3 0 0 (- forceStrength)) g
               else if key = GLFW_KEY_S \<or> key = GLFW_KEY_DOWN
               then push (Vec3 0 0 forceStrength) g
               else if key = GLFW_KEY_A \<or> key = GLFW_KEY_LEFT
               then push (Vec3 (- forceStrength) 0 0) g
               else if key = GLFW_KEY_D \<or> key = GLFW_KEY_RIGHT
               then push (Vec3 forceStrength 0 0) g
               else if key = GLFW_KEY_SPACE
               then (case getHeight (terrain g) (xc (position (player g)))
                            (zc (position (player g))) of
                       None \<Rightarrow> None
                     | Some h \<Rightarrow>
                         if yc (position (player g)) - radius (player g) \<le> h + 0.1
                         then Some (g\<lparr>player :=
                                (player g)\<lparr>velocity := set_y (velocity (player g)) 8.0\<rparr>\<rparr>)
                         else Some g)
               else if key = GLFW_KEY_ESCAPE
               then Some (togglePause g)
               else if key = GLFW_KEY_R
               then Some (g\<lparr>environmentRotationSpeed :=
                            (if environmentRotationSpeed g = 0 then 0.1 else 0.0)\<rparr>)
               else Some g)
      else Some g)"

text \<open>
  The states a \<^verbatim>\<open>Game\<close> object can be in: the constructed one, and every state a
  public member function leaves, where \<^verbatim>\<open>update\<close> is called with a frame time that is
  not negative (the main loop passes the difference of two readings of a monotonic
  clock).
\<close>

inductive Game_reachable :: "Game \<Rightarrow> bool" where
  constructed: "Game_new src rsrc = Some g \<Longrightarrow> Game_reachable g"
| updated: "Game_reachable g \<Longrightarrow> 0 \<le> deltaTime \<Longrightarrow> Game_update deltaTime g = Some g' \<Longrightarrow>
            Game_reachable g'"
| input: "Game_reachable g \<Longrightarrow> handleInput key action g = Some g' \<Longrightarrow> Game_reachable g'"
| paused: "Game_reachable g \<Longrightarrow> Game_reachable (togglePause g)"
| started: "Game_reachable g \<Longrightarrow> startGame g = Some g' \<Longrightarrow> Game_reachable g'"
| reset: "Game_reachable g \<Longrightarrow> resetGame g = Some g' \<Longrightarrow> Game_reachable g'"
| menu: "Game_reachable g \<Longrightarrow> Game_reachable (returnToMenu g)"

text \<open>
  \<^verbatim>\<open>dis\<close> is a \<^verbatim>\<open>std::uniform_real_distribution<float>(0.0f, 1.0f)\<close>: every draw lies
  in \<open>[0, 1)\<close>. A game built by \<^verbatim>\<open>resetGame\<close> has the terrain
  \<^verbatim>\<open>Terrain(100, 200, 1.0f)\<close>.
\<close>

definition draws_ok :: "(nat \<Rightarrow> real) \<Rightarrow> bool" where
  "draws_ok src \<longleftrightarrow> (\<forall>n. 0 \<le> src n \<and> src n < 1)"

definition gen_inv :: "Game \<Rightarrow> bool" where
  "gen_inv g \<longleftrightarrow>
     draws_ok (dis_gen g) \<and> gridSize (terrain g) = 1 \<and> width (terrain g) = 100 \<and>
     depth (terrain g) = 200"

text \<open>
  The members that no generator writes, and the well-formedness of a constructed game:
  the terrain of \<^verbatim>\<open>resetGame\<close> with its full height map, and at least one obstacle,
  tree and grass patch, so that \<^verbatim>\<open>back()\<close> is defined.
\<close>

definition frame :: "Game \<Rightarrow> MetaBall \<times> Terrain \<times> GameState \<times> real \<times> real" where
  "frame g = (player g, terrain g, currentState g, score g, gameSpeed g)"

definition Game_wf :: "Game \<Rightarrow> bool" where
  "Game_wf g \<longleftrightarrow>
     gen_inv g \<and> length (heightMap (terrain g)) = 20000 \<and>
     obstacles g \<noteq> [] \<and> trees g \<noteq> [] \<and> grassPatches g \<noteq> []"

section \<open>Properties of the mesh generators\<close>

lemma length_cylinder_vertices:
  "length (cylinder_vertices segments i vs) = length vs + 2 * nat (segments + 1 - i)"
proof (induction segments i vs rule: cylinder_vertices.induct)
  case (1 segments i vs)
  show ?case
  proof (cases "i \<le> segments")
    case True
    then have "length (cylinder_vertices segments i vs) =
        length (vs @ [cylinder_bottom segments i, cylinder_top segments i])
          + 2 * nat (segments + 1 - (i + 1))"
      using "1.IH" by (simp add: cylinder_vertices.simps [of segments i vs])
    also have "\<dots> = length vs + 2 * nat (segments + 1 - i)"
      using True by (simp add: nat_diff_distrib nat_add_distrib)
    finally show ?thesis .
  next
    case False
    then show ?thesis by (simp add: cylinder_vertices.simps [of segments i vs])
  qed
qed

lemma length_cylinder_indices:
  "length (cylinder_indices segments i ixs) = length ixs + 6 * nat (segments - i)"
proof (induction segments i ixs rule: cylinder_indices.induct)
  case (1 segments i ixs)
  show ?case
  proof (cases "i < segments")
    case True
    then have "length (cylinder_indices segments i ixs) =
        length ixs + 6 + 6 * nat (segments - (i + 1))"
      using "1.IH" [OF True refl] by (simp add: cylinder_indices.simps [of segments i ixs] Let_def)
    also have "\<dots> = length ixs + 6 * nat (segments - i)"
      using True by (simp add: nat_diff_distrib)
    finally show ?thesis .
  next
    case False
    then show ?thesis by (simp add: cylinder_indices.simps [of segments i ixs])
  qed
qed

lemma cylinder_indices_bound:
  "0 \<le> i \<Longrightarrow> list_all (\<lambda>k. k < nat (2 * segments + 2)) ixs \<Longrightarrow>
   list_all (\<lambda>k. k < nat (2 * segments + 2)) (cylinder_indices segments i ixs)"
proof (induction segments i ixs rule: cylinder_indices.induct)
  case (1 segments i ixs)
  show ?case
  proof (cases "i < segments")
    case True
    have "list_all (\<lambda>k. k < nat (2 * segments + 2))
            (ixs @ [nat (i * 2), nat (i * 2 + 1), nat (i * 2 + 2),
                    nat (i * 2 + 2), nat (i * 2 + 1), nat (i * 2 + 3)])"
      using True "1.prems" by simp
    then have "list_all (\<lambda>k. k < nat (2 * segments + 2))
            (cylinder_indices segments (i + 1)
               (ixs @ [nat (i * 2), nat (i * 2 + 1), nat (i * 2 + 2),
                       nat (i * 2 + 2), nat (i * 2 + 1), nat (i * 2 + 3)]))"
      using "1.IH" [OF True refl] "1.prems"(1) by simp
    then show ?thesis
      using True by (simp add: cylinder_indices.simps [of segments i ixs] Let_def)
  next
    case False
    then show ?thesis
      using "1.prems" by (simp add: cylinder_indices.simps [of segments i ixs])
  qed
qed

lemma triangles_ok_generateCube: "triangles_ok generateCube"
  by (simp add: triangles_ok_def generateCube_def Mesh_new_def)

lemma triangles_ok_generatePyramid: "triangles_ok generatePyramid"
  by (simp add: triangles_ok_def generatePyramid_def Mesh_new_def)

lemma triangles_ok_generateCylinder: "0 \<le> segments \<Longrightarrow> triangles_ok (generateCylinder segments)"
proof -
  assume seg: "0 \<le> segments"
  have len: "length (vertices (generateCylinder segments)) = nat (2 * segments + 2)"
    using seg by (simp add: generateCylinder_def Mesh_new_def length_cylinder_vertices
        nat_add_distrib nat_mult_distrib)
  have "list_all (\<lambda>k. k < nat (2 * segments + 2)) (cylinder_indices segments 0 [])"
    by (rule cylinder_indices_bound) simp_all
  then show ?thesis
    using len by (simp add: triangles_ok_def generateCylinder_def Mesh_new_def
        length_cylinder_indices)
qed

text \<open>
  Claim C6. The cube, the pyramid and, for a segment count of at least three, the
  cylinder generator produce an index list whose length is divisible by three and in
  which every index is strictly below the number of produced vertices.
\<close>

theorem generators_triangles_ok:
  "triangles_ok generateCube \<and> triangles_ok generatePyramid \<and>
   (3 \<le> segments \<longrightarrow> triangles_ok (generateCylinder segments))"
  using triangles_ok_generateCube triangles_ok_generatePyramid
    triangles_ok_generateCylinder [of segments] by simp

theorem generators_triangles_ok_witness:
  "(3::int) \<le> 3 \<and> triangles_ok generateCube \<and> triangles_ok generatePyramid \<and>
   triangles_ok (generateCylinder 3)"
  using generators_triangles_ok [of 3] by simp

section \<open>Properties of the vector and matrix math\<close>

lemma upt4: "[0..<4] = [0, 1, 2, 3]"
  by (simp add: upt_rec)

lemma upt16: "[0..<16] = [0, 1, 2, 3, 4, 5, 6, 7, 8, 9, 10, 11, 12, 13, 14, 15]"
  by (simp add: upt_rec)

lemma list16:
  "length (xs :: real list) = 16 \<Longrightarrow>
   \<exists>a0 a1 a2 a3 a4 a5 a6 a7 a8 a9 a10 a11 a12 a13 a14 a15.
     xs = [a0, a1, a2, a3, a4, a5, a6, a7, a8, a9, a10, a11, a12, a13, a14, a15]"
  by (auto simp add: eval_nat_numeral length_Suc_conv)

lemma mat_m_identity:
  "mat_m Mat4_identity = [1, 0, 0, 0, 0, 1, 0, 0, 0, 0, 1, 0, 0, 0, 0, 1]"
  by (simp add: Mat4_identity_def Mat4_new_def upt16 eval_nat_numeral)

lemma mat_m_new: "mat_m Mat4_new = [1, 0, 0, 0, 0, 1, 0, 0, 0, 0, 1, 0, 0, 0, 0, 1]"
  by (simp add: Mat4_new_def eval_nat_numeral)

lemma identity_mult_entries:
  "Mat4_mult Mat4_identity
     (Mat4 [a0, a1, a2, a3, a4, a5, a6, a7, a8, a9, a10, a11, a12, a13, a14, a15]) =
   Mat4 [a0, a1, a2, a3, a4, a5, a6, a7, a8, a9, a10, a11, a12, a13, a14, a15]"
  by (simp add: Mat4_mult_def mat_m_identity mat_m_new mult_i_def mult_j_def mult_k_def
      upt4 eval_nat_numeral)

lemma mult_identity_entries:
  "Mat4_mult (Mat4 [a0, a1, a2, a3, a4, a5, a6, a7, a8, a9, a10, a11, a12, a13, a14, a15])
     Mat4_identity =
   Mat4 [a0, a1, a2, a3, a4, a5, a6, a7, a8, a9, a10, a11, a12, a13, a14, a15]"
  by (simp add: Mat4_mult_def mat_m_identity mat_m_new mult_i_def mult_j_def mult_k_def
      upt4 eval_nat_numeral)

text \<open>
  Claim C7. For every 4x4 matrix \<open>M\<close> (sixteen entries), \<open>identity() * M = M\<close> and
  \<open>M * identity() = M\<close>. Over the reals the two products are equal to \<open>M\<close> exactly.
\<close>

theorem identity_mult_both_sides:
  assumes "length (mat_m M) = 16"
  shows "Mat4_mult Mat4_identity M = M \<and> Mat4_mult M Mat4_identity = M"
proof -
  obtain a0 a1 a2 a3 a4 a5 a6 a7 a8 a9 a10 a11 a12 a13 a14 a15 where
    "mat_m M = [a0, a1, a2, a3, a4, a5, a6, a7, a8, a9, a10, a11, a12, a13, a14, a15]"
    using list16 [OF assms] by blast
  then have M: "M = Mat4 [a0, a1, a2, a3, a4, a5, a6, a7, a8, a9, a10, a11, a12, a13, a14, a15]"
    by (cases M) simp
  show ?thesis
    unfolding M by (intro conjI identity_mult_entries mult_identity_entries)
qed

theorem identity_mult_both_sides_witness:
  "length (mat_m (Mat4 [1, 2, 3, 4, 5, 6, 7, 8, 9, 10, 11, 12, 13, 14, 15, 16])) = 16 \<and>
   Mat4_mult Mat4_identity (Mat4 [1, 2, 3, 4, 5, 6, 7, 8, 9, 10, 11, 12, 13, 14, 15, 16]) =
     Mat4 [1, 2, 3, 4, 5, 6, 7, 8, 9, 10, 11, 12, 13, 14, 15, 16] \<and>
   Mat4_mult (Mat4 [1, 2, 3, 4, 5, 6, 7, 8, 9, 10, 11, 12, 13, 14, 15, 16]) Mat4_identity =
     Mat4 [1, 2, 3, 4, 5, 6, 7, 8, 9, 10, 11, 12, 13, 14, 15, 16]"
  using identity_mult_both_sides [of "Mat4 [1, 2, 3, 4, 5, 6, 7, 8, 9, 10, 11, 12, 13, 14, 15, 16]"]
  by simp

section \<open>Properties of the ball update\<close>

lemma keep_within_bounds_position:
  "- 10 \<le> xc (position (keep_within_bounds b)) \<and>
   xc (position (keep_within_bounds b)) \<le> 10 \<and>
   - 50 \<le> zc (position (keep_within_bounds b))"
  by (simp add: keep_within_bounds_def Let_def set_x_def set_z_def)

text \<open>
  Claim C9. After every call of \<^verbatim>\<open>MetaBall::update\<close> on a live ball the position has
  \<open>-10 \<le> x \<le> 10\<close> and \<open>z \<ge> -50\<close>, whatever the velocity, the gravity and the time
  step were.
\<close>

theorem update_keeps_ball_within_bounds:
  assumes "isAlive b"
  shows "- 10 \<le> xc (position (MetaBall_update deltaTime gravity b)) \<and>
         xc (position (MetaBall_update deltaTime gravity b)) \<le> 10 \<and>
         - 50 \<le> zc (position (MetaBall_update deltaTime gravity b))"
  using assms keep_within_bounds_position by (simp add: MetaBall_update_def)

theorem update_keeps_ball_within_bounds_witness:
  "isAlive (MetaBall_new\<lparr>velocity := Vec3 500 0 (- 900)\<rparr>) \<and>
   position (MetaBall_update 1 (Vec3 0 (- 9.8) 0) (MetaBall_new\<lparr>velocity := Vec3 500 0 (- 900)\<rparr>))
     = Vec3 10 0.5 (- 50)"
  using update_keeps_ball_within_bounds
    [of "MetaBall_new\<lparr>velocity := Vec3 500 0 (- 900)\<rparr>" 1 "Vec3 0 (- 9.8) 0"]
  by (simp add: MetaBall_new_def MetaBall_update_def keep_within_bounds_def
      ground_collision_def update_rotation_def integrate_def Let_def
      Vec3_plus_def Vec3_times_def set_x_def set_y_def set_z_def)

section \<open>Properties of the orbit camera\<close>













lemma Viewport_updateCamera_pitch:
  "\<bar>cameraPitch (Viewport_updateCamera s)\<bar> \<le> pi / 2 - 0.01"
  using pi_ge_two by (simp add: Viewport_updateCamera_def Let_def abs_le_iff)

lemma Viewport_updateCamera_distance:
  "0.5 \<le> cameraDistance (Viewport_updateCamera s) \<and>
   cameraDistance (Viewport_updateCamera s) \<le> 100"
  by (simp add: Viewport_updateCamera_def Let_def)




lemma Viewport_updateCamera_ok: "camera_ok (Viewport_updateCamera s)"
proof -
  have "\<bar>cameraPitch (Viewport_updateCamera s)\<bar> < pi / 2"
    using Viewport_updateCamera_pitch [of s] by simp
  then show ?thesis
    using Viewport_updateCamera_distance [of s] by (simp add: camera_ok_def)
qed




section \<open>Degenerate inputs of the vector operations\<close>

lemma Vec3_divide_total:
  "Vec3_divide v s =
     Some (if \<bar>s\<bar> > 0.0001 then Vec3 (xc v / s) (yc v / s) (zc v / s) else Vec3 0 0 0)"
  by (auto simp add: Vec3_divide_def fdiv_def)

lemma Vec3_normalize_total:
  "Vec3_normalize v =
     Some (if Vec3_length v > 0.0001
           then Vec3 (xc v / Vec3_length v) (yc v / Vec3_length v) (zc v / Vec3_length v)
           else Vec3 0 1 0)"
  by (simp add: Vec3_normalize_def Let_def Vec3_divide_total)

lemma ObjVec3_divide_None: "ObjVec3_divide v s = None \<longleftrightarrow> s = 0"
  by (simp add: ObjVec3_divide_def fdiv_def)

lemma ObjVec3_divide_Some:
  "s \<noteq> 0 \<Longrightarrow> ObjVec3_divide v s = Some (Vec3 (xc v / s) (yc v / s) (zc v / s))"
  by (simp add: ObjVec3_divide_def fdiv_def)

lemma ObjVec3_normalize_total:
  "ObjVec3_normalize v =
     Some (if Vec3_length v > 0
           then Vec3 (xc v / Vec3_length v) (yc v / Vec3_length v) (zc v / Vec3_length v)
           else v)"
  by (simp add: ObjVec3_normalize_def Let_def ObjVec3_divide_Some)

text \<open>
  Claim C4, as stated: every \<^verbatim>\<open>Vec3\<close> division by a near-zero scalar returns the zero
  vector or the original vector, and never an undefined value. The unguarded
  \<^verbatim>\<open>operator/\<close> of load\_obj\_model.cpp refutes it: dividing by zero has no defined
  result (an infinity or NaN in C++), and dividing \<open>(1, 0, 0)\<close> by \<open>0.00001\<close>, a scalar
  below the threshold \<open>0.0001\<close> of main.cpp, returns \<open>(100000, 0, 0)\<close>, which is
  neither the zero vector nor the original one.
\<close>

theorem obj_divide_near_zero_counterexample:
  "ObjVec3_divide (Vec3 1 0 0) 0 = None \<and>
   ObjVec3_divide (Vec3 1 0 0) 0.00001 = Some (Vec3 100000 0 0) \<and>
   Vec3 100000 0 0 \<noteq> Vec3 0 0 0 \<and> Vec3 100000 0 0 \<noteq> Vec3 1 0 0"
  by (simp add: ObjVec3_divide_def fdiv_def)

text \<open>
  Claim C4, amended. In main.cpp, \<^verbatim>\<open>operator/\<close> and \<^verbatim>\<open>normalize\<close> always have a
  defined result: the division returns the zero vector when \<open>|s| \<le> 0.0001\<close> and the
  normalisation returns \<open>(0, 1, 0)\<close> when the length is at most \<open>0.0001\<close>. In
  load\_obj\_model.cpp, \<^verbatim>\<open>normalize\<close> always has a defined result and returns the
  vector itself when its length is zero, while \<^verbatim>\<open>operator/\<close> has no guard: its result
  is undefined exactly when the scalar is zero.
\<close>

theorem vec3_degenerate_inputs:
  "(\<exists>r. Vec3_divide v s = Some r \<and> (\<bar>s\<bar> \<le> 0.0001 \<longrightarrow> r = Vec3 0 0 0)) \<and>
   (\<exists>n. Vec3_normalize v = Some n \<and> (Vec3_length v \<le> 0.0001 \<longrightarrow> n = Vec3 0 1 0)) \<and>
   (\<exists>n. ObjVec3_normalize v = Some n \<and> (Vec3_length v = 0 \<longrightarrow> n = v)) \<and>
   (ObjVec3_divide v s = None \<longleftrightarrow> s = 0)"
proof (intro conjI)
  show "\<exists>r. Vec3_divide v s = Some r \<and> (\<bar>s\<bar> \<le> 0.0001 \<longrightarrow> r = Vec3 0 0 0)"
    by (simp add: Vec3_divide_total)
  show "\<exists>n. Vec3_normalize v = Some n \<and> (Vec3_length v \<le> 0.0001 \<longrightarrow> n = Vec3 0 1 0)"
    by (simp add: Vec3_normalize_total)
  show "\<exists>n. ObjVec3_normalize v = Some n \<and> (Vec3_length v = 0 \<longrightarrow> n = v)"
    by (simp add: ObjVec3_normalize_total)
  show "ObjVec3_divide v s = None \<longleftrightarrow> s = 0"
    by (rule ObjVec3_divide_None)
qed

theorem vec3_degenerate_inputs_witness:
  "\<bar>0 :: real\<bar> \<le> 0.0001 \<and> Vec3_length (Vec3 0 0 0) \<le> 0.0001 \<and> Vec3_length (Vec3 0 0 0) = 0 \<and>
   Vec3_divide (Vec3 0 0 0) 0 = Some (Vec3 0 0 0) \<and>
   Vec3_normalize (Vec3 0 0 0) = Some (Vec3 0 1 0) \<and>
   ObjVec3_normalize (Vec3 0 0 0) = Some (Vec3 0 0 0) \<and>
   ObjVec3_divide (Vec3 0 0 0) 0 = None"
  using vec3_degenerate_inputs [of "Vec3 0 0 0" 0]
  by (simp add: Vec3_length_def)

section \<open>Properties of the terrain queries\<close>







lemma cell_indices_in_range:
  fixes xi zi w d :: int
  assumes "0 \<le> xi" "xi < w - 1" "0 \<le> zi" "zi < d - 1"
  shows "0 \<le> zi * w + xi \<and> (zi + 1) * w + xi + 1 < w * d"
proof -
  have w: "0 \<le> w"
    using assms by linarith
  have "(zi + 1) * w \<le> (d - 1) * w"
    using assms w by (intro mult_right_mono) simp_all
  then have "(zi + 1) * w + xi + 1 \<le> (d - 1) * w + (w - 2) + 1"
    using assms by linarith
  also have "\<dots> < w * d"
    by (simp add: algebra_simps)
  finally have up: "(zi + 1) * w + xi + 1 < w * d" .
  have "0 \<le> zi * w"
    using assms w by simp
  then show ?thesis
    using up assms by simp
qed

lemma elem_at_Some:
  "0 \<le> i \<Longrightarrow> i < int (length xs) \<Longrightarrow> elem_at xs i = Some (xs ! nat i)"
  by (simp add: elem_at_def)

lemma cell_reads:
  assumes rng: "0 \<le> xi" "xi < w - 1" "0 \<le> zi" "zi < d - 1"
    and len: "int (length hm) = w * d"
  shows "elem_at hm (zi * w + xi) = Some (hm ! nat (zi * w + xi))"
    and "elem_at hm (zi * w + xi + 1) = Some (hm ! nat (zi * w + xi + 1))"
    and "elem_at hm ((zi + 1) * w + xi) = Some (hm ! nat ((zi + 1) * w + xi))"
    and "elem_at hm ((zi + 1) * w + xi + 1) = Some (hm ! nat ((zi + 1) * w + xi + 1))"
proof -
  from cell_indices_in_range [OF rng]
  have b: "0 \<le> zi * w + xi" "(zi + 1) * w + xi + 1 < w * d"
    by simp_all
  have w: "0 \<le> w"
    using rng by linarith
  have s: "(zi + 1) * w = zi * w + w"
    by (simp add: algebra_simps)
  show "elem_at hm (zi * w + xi) = Some (hm ! nat (zi * w + xi))"
    using b w rng unfolding s by (intro elem_at_Some) (simp_all add: len)
  show "elem_at hm (zi * w + xi + 1) = Some (hm ! nat (zi * w + xi + 1))"
    using b w rng unfolding s by (intro elem_at_Some) (simp_all add: len)
  show "elem_at hm ((zi + 1) * w + xi) = Some (hm ! nat ((zi + 1) * w + xi))"
    using b w rng unfolding s by (intro elem_at_Some) (simp_all add: len)
  show "elem_at hm ((zi + 1) * w + xi + 1) = Some (hm ! nat ((zi + 1) * w + xi + 1))"
    using b w rng unfolding s by (intro elem_at_Some) (simp_all add: len)
qed

lemma getHeight_in_cell:
  assumes gs: "gridSize t \<noteq> 0"
    and xi: "float_to_int (grid_x t x) = Some xi"
    and zi: "float_to_int (grid_z t z) = Some zi"
    and rng: "0 \<le> xi" "xi < width t - 1" "0 \<le> zi" "zi < depth t - 1"
    and len: "int (length (heightMap t)) = width t * depth t"
  shows "getHeight t x z =
     Some ((heightMap t ! nat (zi * width t + xi) *
              (1 - fmod (x + real_of_int (int_div (width t) 2)) (gridSize t) / gridSize t) +
            heightMap t ! nat (zi * width t + xi + 1) *
              (fmod (x + real_of_int (int_div (width t) 2)) (gridSize t) / gridSize t)) *
           (1 - fmod (z + real_of_int (int_div (depth t) 2)) (gridSize t) / gridSize t) +
           (heightMap t ! nat ((zi + 1) * width t + xi) *
              (1 - fmod (x + real_of_int (int_div (width t) 2)) (gridSize t) / gridSize t) +
            heightMap t ! nat ((zi + 1) * width t + xi + 1) *
              (fmod (x + real_of_int (int_div (width t) 2)) (gridSize t) / gridSize t)) *
           (fmod (z + real_of_int (int_div (depth t) 2)) (gridSize t) / gridSize t))"
proof -
  note e = cell_reads [OF rng len]
  have g: "\<not> (xi < 0 \<or> xi \<ge> width t - 1 \<or> zi < 0 \<or> zi \<ge> depth t - 1)"
    using rng by simp
  show ?thesis
    unfolding getHeight_def
    using gs xi zi g e
    by (simp add: grid_x_def grid_z_def Let_def)
qed

lemma getHeight_index_out_of_range:
  assumes "gridSize t \<noteq> 0"
    and "float_to_int (grid_x t x) = Some xi"
    and "float_to_int (grid_z t z) = Some zi"
    and "xi < 0 \<or> xi \<ge> width t - 1 \<or> zi < 0 \<or> zi \<ge> depth t - 1"
  shows "getHeight t x z = Some 0"
  using assms by (simp add: getHeight_def grid_x_def grid_z_def)

lemma float_trunc_ge: "real_of_int n \<le> r \<Longrightarrow> n \<le> float_trunc r"
  by (simp add: float_trunc_def le_floor_iff) linarith

lemma float_trunc_neg: "r \<le> - 1 \<Longrightarrow> float_trunc r < 0"
  by (simp add: float_trunc_def)

lemma float_to_int_Some: "float_to_int r = Some i \<Longrightarrow> i = float_trunc r"
  by (simp add: float_to_int_def Let_def split: if_splits)

text \<open>
  What the bounds check of \<^verbatim>\<open>getHeight\<close> achieves: a query at least one cell below
  the low edge, or at or beyond the last sample of the high edge, returns exactly zero
  (for grid coordinates that fit an \<^verbatim>\<open>int\<close>).
\<close>

lemma getHeight_zero_one_cell_outside:
  assumes gs: "gridSize t \<noteq> 0"
    and xi: "float_to_int (grid_x t x) = Some xi"
    and zi: "float_to_int (grid_z t z) = Some zi"
    and out: "grid_x t x \<le> - 1 \<or> real_of_int (width t - 1) \<le> grid_x t x \<or>
              grid_z t z \<le> - 1 \<or> real_of_int (depth t - 1) \<le> grid_z t z"
  shows "getHeight t x z = Some 0"
proof -
  have "xi < 0 \<or> xi \<ge> width t - 1 \<or> zi < 0 \<or> zi \<ge> depth t - 1"
    using out float_trunc_ge float_trunc_neg float_to_int_Some [OF xi] float_to_int_Some [OF zi]
    by blast
  then show ?thesis
    by (rule getHeight_index_out_of_range [OF gs xi zi])
qed







text \<open>
  On the terrain of the game, a query \<open>0.1\<close> to the left of the first column is
  answered from the first two samples of its row, whatever the height map holds.
\<close>

lemma getHeight_left_of_first_column:
  assumes "gridSize t = 1" "width t = 100" "depth t = 200" "length (heightMap t) = 20000"
  shows "getHeight t (- 50.1) 0 = Some (1.1 * heightMap t ! 10000 - 0.1 * heightMap t ! 10001)"
  using assms
  by (simp add: getHeight_def float_to_int_def float_trunc_def int_div_def fmod_def elem_at_def
      Let_def)

text \<open>
  Claim C2 says that every query outside the grid returns exactly \<open>0.0\<close>. The game's
  terrain is \<^verbatim>\<open>Terrain(100, 200, 1.0f)\<close>; \<^verbatim>\<open>getHeight(-50.1f, 0.0f)\<close>, the query
  \<^verbatim>\<open>getNormal(-50, 0)\<close> makes for the first mesh column, has the grid coordinate
  \<open>-0.1\<close>, outside the grid. The conversion to \<^verbatim>\<open>int\<close> truncates it to \<open>0\<close>, the bounds
  check passes, and the result is extrapolated from the first two samples of the row
  with the ratio \<open>-0.1\<close>: with the samples \<open>1\<close> and \<open>0\<close> it is \<open>1.1\<close>, not \<open>0\<close>.
\<close>

theorem getHeight_extrapolates_below_low_edge:
  "Terrain_ok \<lparr>heightMap = (replicate 20000 0)[10000 := 1], width = 100, depth = 200,
      gridSize = 1\<rparr> \<and>
   outside_grid \<lparr>heightMap = (replicate 20000 0)[10000 := 1], width = 100, depth = 200,
      gridSize = 1\<rparr> (- 50.1) 0 \<and>
   getHeight \<lparr>heightMap = (replicate 20000 0)[10000 := 1], width = 100, depth = 200,
      gridSize = 1\<rparr> (- 50.1) 0 = Some 1.1"
  by (simp add: Terrain_ok_def outside_grid_def grid_x_def grid_z_def int_div_def getHeight_def
      float_to_int_def float_trunc_def fmod_def elem_at_def Let_def)

section \<open>Properties of the game update\<close>

subsection \<open>The generators write only their own list and the random sources\<close>

lemma add_obstacle_score [simp]:
  "score (add_obstacle i g) = score g" "gameSpeed (add_obstacle i g) = gameSpeed g"
  by (simp_all add: add_obstacle_def dis_def rand_def Let_def split_def)

lemma add_collectible_score [simp]:
  "score (add_collectible i g) = score g" "gameSpeed (add_collectible i g) = gameSpeed g"
  by (simp_all add: add_collectible_def dis_def Let_def split_def)

lemma add_tree_score:
  "add_tree i g = Some g' \<Longrightarrow> score g' = score g \<and> gameSpeed g' = gameSpeed g"
  by (auto simp add: add_tree_def dis_def Let_def split_def split: option.splits)

lemma add_grass_score:
  "add_grass i g = Some g' \<Longrightarrow> score g' = score g \<and> gameSpeed g' = gameSpeed g"
  by (auto simp add: add_grass_def dis_def Let_def split_def split: option.splits)

lemma generateObstacles_from_score:
  "score (generateObstacles_from count i g) = score g \<and>
   gameSpeed (generateObstacles_from count i g) = gameSpeed g"
proof (induction count i g rule: generateObstacles_from.induct)
  case (1 count i g)
  then show ?case
    by (cases "i < count") (simp_all add: generateObstacles_from.simps [of count i g])
qed

lemma generateCollectibles_from_score:
  "score (generateCollectibles_from count i g) = score g \<and>
   gameSpeed (generateCollectibles_from count i g) = gameSpeed g"
proof (induction count i g rule: generateCollectibles_from.induct)
  case (1 count i g)
  then show ?case
    by (cases "i < count") (simp_all add: generateCollectibles_from.simps [of count i g])
qed

lemma generateTrees_from_score:
  "generateTrees_from count i g = Some g' \<Longrightarrow>
   score g' = score g \<and> gameSpeed g' = gameSpeed g"
proof (induction count i g rule: generateTrees_from.induct)
  case (1 count i g)
  show ?case
  proof (cases "i < count")
    case True
    then obtain g1 where a: "add_tree i g = Some g1"
      and r: "generateTrees_from count (i + 1) g1 = Some g'"
      using "1.prems" by (simp add: generateTrees_from.simps [of count i g] split: option.splits)
    from "1.IH" [OF True a r] add_tree_score [OF a] show ?thesis
      by simp
  next
    case False
    then show ?thesis
      using "1.prems" by (simp add: generateTrees_from.simps [of count i g])
  qed
qed

lemma generateGrass_from_score:
  "generateGrass_from count i g = Some g' \<Longrightarrow>
   score g' = score g \<and> gameSpeed g' = gameSpeed g"
proof (induction count i g rule: generateGrass_from.induct)
  case (1 count i g)
  show ?case
  proof (cases "i < count")
    case True
    then obtain g1 where a: "add_grass i g = Some g1"
      and r: "generateGrass_from count (i + 1) g1 = Some g'"
      using "1.prems" by (simp add: generateGrass_from.simps [of count i g] split: option.splits)
    from "1.IH" [OF True a r] add_grass_score [OF a] show ?thesis
      by simp
  next
    case False
    then show ?thesis
      using "1.prems" by (simp add: generateGrass_from.simps [of count i g])
  qed
qed

lemma generate_more_score:
  assumes "generate_more g = Some g'"
  shows "score g' = score g \<and> gameSpeed g' = gameSpeed g"
proof -
  define g1 where "g1 = (if zc (o_position (last (obstacles g))) > zc (position (player g)) - 100
                         then generateObstacles 5 g else g)"
  define g2 where "g2 = (if collectibles g1 = [] \<or>
                            zc (last (collectibles g1)) > zc (position (player g1)) - 80
                         then generateCollectibles 3 g1 else g1)"
  have s1: "score g1 = score g \<and> gameSpeed g1 = gameSpeed g"
    by (simp add: g1_def generateObstacles_def generateObstacles_from_score)
  have s2: "score g2 = score g1 \<and> gameSpeed g2 = gameSpeed g1"
    by (simp add: g2_def generateCollectibles_def generateCollectibles_from_score)
  obtain g3 where g3: "(if zc (t_position (last (trees g2))) > zc (position (player g2)) - 150
                        then generateTrees 5 g2 else Some g2) = Some g3"
    and g': "(if zc (last (grassPatches g3)) > zc (position (player g3)) - 100
              then generateGrass 10 g3 else Some g3) = Some g'"
    using assms
    by (auto simp add: generate_more_def vector_back_def g1_def g2_def Let_def
        split: if_splits bind_splits)
  have s3: "score g3 = score g2 \<and> gameSpeed g3 = gameSpeed g2"
    using g3 generateTrees_from_score [of 5 0 g2 g3]
    by (auto simp add: generateTrees_def split: if_splits)
  have s4: "score g' = score g3 \<and> gameSpeed g' = gameSpeed g3"
    using g' generateGrass_from_score [of 10 0 g3 g']
    by (auto simp add: generateGrass_def split: if_splits)
  show ?thesis
    using s1 s2 s3 s4 by simp
qed

subsection \<open>The score through one update\<close>

lemma check_obstacles_score: "0 \<le> sc \<Longrightarrow> 0 \<le> snd (snd (check_obstacles obs p sc))"
proof (induction obs arbitrary: p sc)
  case Nil
  then show ?case by simp
next
  case (Cons ob rest)
  show ?case
  proof (cases "checkCollision ob p")
    case True
    show ?thesis
      using True Cons.IH [of 0] Cons.IH [of "sc - damage ob * 2"]
      by (simp add: Let_def split_def)
  next
    case False
    from Cons.IH [OF Cons.prems] show ?thesis
      using False by (simp add: split_def)
  qed
qed

lemma check_collectibles_score: "0 \<le> sc \<Longrightarrow> 0 \<le> snd (snd (check_collectibles cs p sc))"
proof (induction cs arbitrary: p sc)
  case Nil
  then show ?case by simp
next
  case (Cons c rest)
  show ?case
  proof (cases "Vec3_length (Vec3_minus (position p) c) < radius p + 0.5")
    case True
    have "0 \<le> sc + 50"
      using Cons.prems by simp
    from Cons.IH [OF this] show ?thesis
      using True by (simp add: Let_def)
  next
    case False
    from Cons.IH [OF Cons.prems] show ?thesis
      using False by (simp add: Let_def split_def)
  qed
qed

lemma update_progression_score:
  "0 \<le> deltaTime \<Longrightarrow> 0 \<le> gameSpeed g \<Longrightarrow> 0 \<le> score g \<Longrightarrow>
   0 \<le> score (update_progression deltaTime g)"
  by (simp add: update_progression_def Let_def)

lemma update_progression_gameSpeed:
  "gameSpeed (update_progression deltaTime g) = gameSpeed g + deltaTime * 0.1"
  by (simp add: update_progression_def Let_def)

lemma check_game_over_score [simp]:
  "score (check_game_over g) = score g" "gameSpeed (check_game_over g) = gameSpeed g"
  by (simp_all add: check_game_over_def)

lemma updateCamera_score [simp]:
  "score (updateCamera deltaTime g) = score g" "gameSpeed (updateCamera deltaTime g) = gameSpeed g"
  by (simp_all add: updateCamera_def Let_def)

lemma Game_update_PLAYING:
  assumes "currentState g = PLAYING" "Game_update deltaTime g = Some g'"
  shows "\<exists>p g3 obs' p1 sc1 cols' p2 sc2.
           g3 = update_progression deltaTime
                  ((if environmentRotation g + environmentRotationSpeed g * deltaTime > 360.0
                    then g\<lparr>environmentRotation :=
                            environmentRotation g + environmentRotationSpeed g * deltaTime - 360.0\<rparr>
                    else g\<lparr>environmentRotation :=
                            environmentRotation g + environmentRotationSpeed g * deltaTime\<rparr>)
                   \<lparr>player := p\<rparr>) \<and>
           player_step deltaTime (terrain g) (player g) = Some p \<and>
           check_obstacles (obstacles g3) (player g3) (score g3) = (obs', p1, sc1) \<and>
           check_collectibles (collectibles g3) p1 sc1 = (cols', p2, sc2) \<and>
           generate_more (updateCamera deltaTime (check_game_over
             (g3\<lparr>obstacles := obs', collectibles := cols', player := p2, score := sc2\<rparr>))) = Some g'"
  using assms
  by (auto simp add: Game_update_def Let_def split: option.splits prod.splits if_splits)

lemma Game_update_PLAYING_score:
  assumes playing: "currentState g = PLAYING"
    and dt: "0 \<le> deltaTime"
    and speed: "0 \<le> gameSpeed g"
    and sc: "0 \<le> score g"
    and upd: "Game_update deltaTime g = Some g'"
  shows "0 \<le> score g' \<and> gameSpeed g \<le> gameSpeed g'"
proof -
  from Game_update_PLAYING [OF playing upd]
  obtain p g3 obs' p1 sc1 cols' p2 sc2 where
    g3: "g3 = update_progression deltaTime
           ((if environmentRotation g + environmentRotationSpeed g * deltaTime > 360.0
             then g\<lparr>environmentRotation :=
                     environmentRotation g + environmentRotationSpeed g * deltaTime - 360.0\<rparr>
             else g\<lparr>environmentRotation :=
                     environmentRotation g + environmentRotationSpeed g * deltaTime\<rparr>)
            \<lparr>player := p\<rparr>)"
    and ob: "check_obstacles (obstacles g3) (player g3) (score g3) = (obs', p1, sc1)"
    and co: "check_collectibles (collectibles g3) p1 sc1 = (cols', p2, sc2)"
    and gm: "generate_more (updateCamera deltaTime (check_game_over
               (g3\<lparr>obstacles := obs', collectibles := cols', player := p2, score := sc2\<rparr>)))
             = Some g'"
    by blast
  have s3: "0 \<le> score g3"
    unfolding g3 using dt speed sc by (intro update_progression_score) simp_all
  have v3: "gameSpeed g3 = gameSpeed g + deltaTime * 0.1"
    unfolding g3 by (simp add: update_progression_gameSpeed)
  have "0 \<le> sc1"
    using check_obstacles_score [OF s3, of "obstacles g3" "player g3"] ob by simp
  then have "0 \<le> sc2"
    using check_collectibles_score [of sc1 "collectibles g3" p1] co by simp
  moreover have "score g' = sc2" "gameSpeed g' = gameSpeed g3"
    using generate_more_score [OF gm] by simp_all
  ultimately show ?thesis
    using v3 dt by simp
qed

subsection \<open>Speed and score in the states a game can reach\<close>

lemma Terrain_new_fields:
  "width (fst (Terrain_new w d grid src)) = w"
  "depth (fst (Terrain_new w d grid src)) = d"
  "gridSize (fst (Terrain_new w d grid src)) = grid"
  by (simp_all add: Terrain_new_def split_def Let_def)

lemma resetGame_score:
  assumes "resetGame g = Some g'"
  shows "gameSpeed g' = 10 \<and> score g' = 0"
proof -
  define g4 where "g4 =
    g\<lparr>player := MetaBall_new,
      terrain := fst (Terrain_new 100 200 1.0 (dis_gen g)),
      dis_gen := snd (Terrain_new 100 200 1.0 (dis_gen g)),
      obstacles := [], collectibles := [], trees := [], grassPatches := [],
      gameSpeed := 10.0, difficulty := 1.0, score := 0, distance := 0,
      gameOver := False, gamePaused := False, environmentRotation := 0,
      currentState := PLAYING\<rparr>"
  define g6 where "g6 = generateCollectibles 10 (generateObstacles 20 g4)"
  have s6: "score g6 = 0 \<and> gameSpeed g6 = 10"
    by (simp add: g6_def g4_def generateCollectibles_def generateObstacles_def
        generateCollectibles_from_score generateObstacles_from_score)
  from assms obtain g7 where t: "generateTrees 30 g6 = Some g7"
    and gr: "generateGrass 50 g7 = Some g'"
    by (auto simp add: resetGame_def Let_def split_def g6_def g4_def split: option.splits)
  have "score g7 = score g6 \<and> gameSpeed g7 = gameSpeed g6"
    using t generateTrees_from_score [of 30 0 g6 g7] by (simp add: generateTrees_def)
  moreover have "score g' = score g7 \<and> gameSpeed g' = gameSpeed g7"
    using gr generateGrass_from_score [of 50 0 g7 g'] by (simp add: generateGrass_def)
  ultimately show ?thesis
    using s6 by simp
qed

lemma Game_new_score:
  assumes "Game_new src rsrc = Some g"
  shows "gameSpeed g = 10 \<and> score g = 0"
proof -
  from assms obtain g0 g1 where "resetGame g0 = Some g1"
    and "g = g1\<lparr>cameraPosition := Vec3 0 5 10,
              g_cameraTarget := position (player (g1\<lparr>cameraPosition := Vec3 0 5 10\<rparr>))\<rparr>"
    by (auto simp add: Game_new_def Let_def split_def split: option.splits)
  then show ?thesis
    using resetGame_score [of g0 g1] by simp
qed

lemma handleInput_score:
  assumes "handleInput key action g = Some g'"
  shows "gameSpeed g' = gameSpeed g \<and> score g' = score g"
  using assms
  by (auto simp add: handleInput_def push_def togglePause_def Let_def
      split: if_splits option.splits)

lemma togglePause_score:
  "gameSpeed (togglePause g) = gameSpeed g \<and> score (togglePause g) = score g"
  by (simp add: togglePause_def)

lemma startGame_score:
  assumes "startGame g = Some g'"
  shows "gameSpeed g' = 10 \<and> score g' = 0"
proof -
  from assms obtain g1 where "resetGame g = Some g1"
    and "g' = g1\<lparr>currentState := PLAYING, inMenu := False\<rparr>"
    by (auto simp add: startGame_def split: option.splits)
  then show ?thesis
    using resetGame_score [of g g1] by simp
qed

lemma Game_update_invariant:
  assumes dt: "0 \<le> deltaTime"
    and inv: "10 \<le> gameSpeed g \<and> 0 \<le> score g"
    and upd: "Game_update deltaTime g = Some g'"
  shows "10 \<le> gameSpeed g' \<and> 0 \<le> score g'"
proof (cases "currentState g = PLAYING")
  case True
  have "0 \<le> gameSpeed g"
    using inv by simp
  from Game_update_PLAYING_score [OF True dt this _ upd] inv show ?thesis
    by simp
next
  case False
  then have "g' = g"
    using upd by (simp add: Game_update_def)
  then show ?thesis
    using inv by simp
qed

text \<open>
  In every reachable state the speed is at least \<open>10\<close> and the score is not negative.
\<close>

lemma Game_reachable_invariant:
  "Game_reachable g \<Longrightarrow> 10 \<le> gameSpeed g \<and> 0 \<le> score g"
proof (induction rule: Game_reachable.induct)
  case (constructed src rsrc g)
  then show ?case
    using Game_new_score by fastforce
next
  case (updated g deltaTime g')
  then show ?case
    using Game_update_invariant by blast
next
  case (input g key action g')
  then show ?case
    using handleInput_score by fastforce
next
  case (paused g)
  then show ?case
    by (simp add: togglePause_score)
next
  case (started g g')
  then show ?case
    using startGame_score by fastforce
next
  case (reset g g')
  then show ?case
    using resetGame_score by fastforce
next
  case (menu g)
  then show ?case
    by (simp add: returnToMenu_def)
qed

subsection \<open>A game can be constructed\<close>

lemma float_to_int_defined:
  assumes "- 2147483648 < r" "r < 2147483648"
  shows "float_to_int r = Some (float_trunc r)"
proof -
  have "- 2147483648 \<le> float_trunc r \<and> float_trunc r < 2147483648"
  proof (cases "0 \<le> r")
    case True
    then have "float_trunc r = \<lfloor>r\<rfloor>"
      by (simp add: float_trunc_def)
    moreover have "0 \<le> \<lfloor>r\<rfloor>" "\<lfloor>r\<rfloor> < 2147483648"
      using True assms(2) by (simp_all add: floor_less_iff)
    ultimately show ?thesis
      by simp
  next
    case False
    then have t: "float_trunc r = - \<lfloor>- r\<rfloor>"
      by (simp add: float_trunc_def)
    have "0 \<le> \<lfloor>- r\<rfloor>" "\<lfloor>- r\<rfloor> < 2147483648"
      using False assms(1) by (simp_all add: floor_less_iff)
    then show ?thesis
      unfolding t by linarith
  qed
  then show ?thesis
    by (simp add: float_to_int_def Let_def)
qed

lemma getHeight_beside_grid:
  assumes t: "gridSize t = 1" "width t = 100" "depth t = 200"
    and x: "101 \<le> \<bar>x\<bar>" "\<bar>x\<bar> \<le> 1000"
    and z: "\<bar>z\<bar> \<le> 100000"
  shows "getHeight t x z = Some 0"
proof -
  have gx: "grid_x t x = x + 50" and gz: "grid_z t z = z + 100"
    using t by (simp_all add: grid_x_def grid_z_def int_div_def)
  have xi: "float_to_int (grid_x t x) = Some (float_trunc (grid_x t x))"
    unfolding gx using x by (intro float_to_int_defined) linarith+
  have zi: "float_to_int (grid_z t z) = Some (float_trunc (grid_z t z))"
    unfolding gz using z by (intro float_to_int_defined) linarith+
  have out: "grid_x t x \<le> - 1 \<or> real_of_int (width t - 1) \<le> grid_x t x \<or>
             grid_z t z \<le> - 1 \<or> real_of_int (depth t - 1) \<le> grid_z t z"
    unfolding gx using x t by simp linarith
  have gs: "gridSize t \<noteq> 0"
    using t by simp
  show ?thesis
    by (rule getHeight_zero_one_cell_outside [OF gs xi zi out])
qed

lemma draws_ok_shift: "draws_ok src \<Longrightarrow> draws_ok (\<lambda>n. src (Suc n))"
  by (simp add: draws_ok_def)

lemma gen_inv_dis:
  assumes "gen_inv g"
  shows "gen_inv (snd (dis g))" "0 \<le> fst (dis g)" "fst (dis g) < 1"
  using assms by (simp_all add: gen_inv_def dis_def draws_ok_def)

lemma gen_inv_rand: "gen_inv g \<Longrightarrow> gen_inv (snd (rand g))"
  by (simp add: gen_inv_def rand_def)

lemma terrain_dis [simp]: "terrain (snd (dis g)) = terrain g"
  by (simp add: dis_def)

lemma gen_inv_lists [simp]:
  "gen_inv (g\<lparr>obstacles := os\<rparr>) = gen_inv g"
  "gen_inv (g\<lparr>collectibles := cs\<rparr>) = gen_inv g"
  "gen_inv (g\<lparr>trees := ts\<rparr>) = gen_inv g"
  "gen_inv (g\<lparr>grassPatches := gs\<rparr>) = gen_inv g"
  by (simp_all add: gen_inv_def)

lemma add_obstacle_gen_inv: "gen_inv g \<Longrightarrow> gen_inv (add_obstacle i g)"
  by (simp add: add_obstacle_def Let_def split_def gen_inv_dis gen_inv_rand)

lemma add_collectible_gen_inv: "gen_inv g \<Longrightarrow> gen_inv (add_collectible i g)"
  by (simp add: add_collectible_def Let_def split_def gen_inv_dis)

lemma generateObstacles_from_gen_inv:
  "gen_inv g \<Longrightarrow> gen_inv (generateObstacles_from count i g)"
proof (induction count i g rule: generateObstacles_from.induct)
  case (1 count i g)
  then show ?case
    by (cases "i < count")
      (simp_all add: generateObstacles_from.simps [of count i g] add_obstacle_gen_inv)
qed

lemma generateCollectibles_from_gen_inv:
  "gen_inv g \<Longrightarrow> gen_inv (generateCollectibles_from count i g)"
proof (induction count i g rule: generateCollectibles_from.induct)
  case (1 count i g)
  then show ?case
    by (cases "i < count")
      (simp_all add: generateCollectibles_from.simps [of count i g] add_collectible_gen_inv)
qed

lemma add_tree_defined:
  assumes inv: "gen_inv g" and i: "0 \<le> i" "i \<le> 1000"
  shows "\<exists>g'. add_tree i g = Some g' \<and> gen_inv g'"
proof -
  let ?g1 = "snd (dis g)"
  let ?g2 = "snd (dis ?g1)"
  let ?side = "if fst (dis g) > 0.5 then 1.0 else - 1.0 :: real"
  let ?x = "(real_of_int (int_div 200 2) + 2.0 + fst (dis ?g1) * 10.0) * ?side"
  let ?z = "- 20.0 - real_of_int i * 20.0"
  have inv1: "gen_inv ?g1" and inv2: "gen_inv ?g2"
    using inv by (simp_all add: gen_inv_dis)
  have r2: "0 \<le> fst (dis ?g1)" "fst (dis ?g1) < 1"
    using inv1 by (simp_all add: gen_inv_dis)
  have d: "int_div 200 2 = 100"
    by (simp add: int_div_def)
  have ax: "101 \<le> \<bar>?x\<bar>" "\<bar>?x\<bar> \<le> 1000"
    using r2 unfolding d by (simp_all add: abs_mult)
  have az: "\<bar>?z\<bar> \<le> 100000"
    using i by simp
  have h: "getHeight (terrain ?g2) ?x ?z = Some 0"
    using inv2 by (intro getHeight_beside_grid ax az) (simp_all add: gen_inv_def)
  have "gen_inv (snd (dis (snd (dis (snd (dis (snd (dis (snd (dis (snd (dis ?g2))))))))))))"
    using inv2 by (simp add: gen_inv_dis)
  then show ?thesis
    using h by (simp add: add_tree_def Let_def split_def)
qed

lemma add_grass_defined:
  assumes inv: "gen_inv g" and i: "0 \<le> i" "i \<le> 1000"
  shows "\<exists>g'. add_grass i g = Some g' \<and> gen_inv g'"
proof -
  let ?g1 = "snd (dis g)"
  let ?g2 = "snd (dis ?g1)"
  let ?side = "if fst (dis g) > 0.5 then 1.0 else - 1.0 :: real"
  let ?x = "(real_of_int (int_div 200 2) + 1.0 + fst (dis ?g1) * 8.0) * ?side"
  let ?z = "- 10.0 - real_of_int i * 8.0"
  have inv1: "gen_inv ?g1" and inv2: "gen_inv ?g2"
    using inv by (simp_all add: gen_inv_dis)
  have r2: "0 \<le> fst (dis ?g1)" "fst (dis ?g1) < 1"
    using inv1 by (simp_all add: gen_inv_dis)
  have d: "int_div 200 2 = 100"
    by (simp add: int_div_def)
  have ax: "101 \<le> \<bar>?x\<bar>" "\<bar>?x\<bar> \<le> 1000"
    using r2 unfolding d by (simp_all add: abs_mult)
  have az: "\<bar>?z\<bar> \<le> 100000"
    using i by simp
  have h: "getHeight (terrain ?g2) ?x ?z = Some 0"
    using inv2 by (intro getHeight_beside_grid ax az) (simp_all add: gen_inv_def)
  show ?thesis
    using h inv2 by (simp add: add_grass_def Let_def split_def)
qed

lemma generateTrees_from_defined:
  "gen_inv g \<Longrightarrow> 0 \<le> i \<Longrightarrow> count \<le> 1000 \<Longrightarrow>
   \<exists>g'. generateTrees_from count i g = Some g' \<and> gen_inv g'"
proof (induction count i g rule: generateTrees_from.induct)
  case (1 count i g)
  show ?case
  proof (cases "i < count")
    case True
    then obtain g1 where a: "add_tree i g = Some g1" and inv1: "gen_inv g1"
      using add_tree_defined [of g i] "1.prems" by auto
    from "1.IH" [OF True a inv1] "1.prems" obtain g' where
      "generateTrees_from count (i + 1) g1 = Some g'" "gen_inv g'"
      by auto
    then show ?thesis
      using True a by (simp add: generateTrees_from.simps [of count i g])
  next
    case False
    then show ?thesis
      using "1.prems" by (simp add: generateTrees_from.simps [of count i g])
  qed
qed

lemma generateGrass_from_defined:
  "gen_inv g \<Longrightarrow> 0 \<le> i \<Longrightarrow> count \<le> 1000 \<Longrightarrow>
   \<exists>g'. generateGrass_from count i g = Some g' \<and> gen_inv g'"
proof (induction count i g rule: generateGrass_from.induct)
  case (1 count i g)
  show ?case
  proof (cases "i < count")
    case True
    then obtain g1 where a: "add_grass i g = Some g1" and inv1: "gen_inv g1"
      using add_grass_defined [of g i] "1.prems" by auto
    from "1.IH" [OF True a inv1] "1.prems" obtain g' where
      "generateGrass_from count (i + 1) g1 = Some g'" "gen_inv g'"
      by auto
    then show ?thesis
      using True a by (simp add: generateGrass_from.simps [of count i g])
  next
    case False
    then show ?thesis
      using "1.prems" by (simp add: generateGrass_from.simps [of count i g])
  qed
qed

lemma generateHeightMap_x_draws:
  "draws_ok (snd acc) \<Longrightarrow> draws_ok (snd (generateHeightMap_x w z x acc))"
proof (induction w z x acc rule: generateHeightMap_x.induct)
  case (1 w z x hm src)
  then show ?case
    by (cases "x < w")
      (simp_all add: generateHeightMap_x.simps [of w z x hm src] draws_ok_shift)
qed

lemma generateHeightMap_z_draws:
  "draws_ok (snd acc) \<Longrightarrow> draws_ok (snd (generateHeightMap_z w d z acc))"
proof (induction w d z acc rule: generateHeightMap_z.induct)
  case (1 w d z acc)
  then show ?case
    by (cases "z < d")
      (simp_all add: generateHeightMap_z.simps [of w d z acc] generateHeightMap_x_draws)
qed

lemma Terrain_new_draws: "draws_ok src \<Longrightarrow> draws_ok (snd (Terrain_new w d grid src))"
  using generateHeightMap_z_draws [of "([], src)" w d 0]
  by (simp add: Terrain_new_def split_def Let_def)

lemma resetGame_defined:
  assumes "draws_ok (dis_gen g)"
  shows "\<exists>g'. resetGame g = Some g'"
proof -
  define g4 where "g4 =
    g\<lparr>player := MetaBall_new,
      terrain := fst (Terrain_new 100 200 1.0 (dis_gen g)),
      dis_gen := snd (Terrain_new 100 200 1.0 (dis_gen g)),
      obstacles := [], collectibles := [], trees := [], grassPatches := [],
      gameSpeed := 10.0, difficulty := 1.0, score := 0, distance := 0,
      gameOver := False, gamePaused := False, environmentRotation := 0,
      currentState := PLAYING\<rparr>"
  define g6 where "g6 = generateCollectibles 10 (generateObstacles 20 g4)"
  have "gen_inv g4"
    using assms by (simp add: g4_def gen_inv_def Terrain_new_fields Terrain_new_draws)
  then have "gen_inv g6"
    by (simp add: g6_def generateCollectibles_def generateObstacles_def
        generateCollectibles_from_gen_inv generateObstacles_from_gen_inv)
  then obtain g7 where t: "generateTrees 30 g6 = Some g7" and "gen_inv g7"
    using generateTrees_from_defined [of g6 0 30] by (auto simp add: generateTrees_def)
  then obtain g' where "generateGrass 50 g7 = Some g'"
    using generateGrass_from_defined [of g7 0 50] by (auto simp add: generateGrass_def)
  then show ?thesis
    using t by (simp add: resetGame_def Let_def split_def g6_def g4_def)
qed

lemma Game_new_defined:
  assumes "draws_ok src"
  shows "\<exists>g. Game_new src rsrc = Some g"
proof -
  let ?g0 = "\<lparr>player = MetaBall_new, terrain = fst (Terrain_new 100 200 1.0 src),
      obstacles = [], collectibles = [], trees = [], grassPatches = [],
      gameSpeed = 10.0, difficulty = 1.0, score = 0, distance = 0,
      gameOver = False, gamePaused = False, inMenu = True,
      cameraPosition = Vec3 0 0 0, g_cameraTarget = Vec3 0 0 0,
      cameraAngle = 0, g_cameraDistance = 8.0,
      environmentRotation = 0, environmentRotationSpeed = 0.1,
      currentState = MENU, dis_gen = snd (Terrain_new 100 200 1.0 src), rand_gen = rsrc\<rparr>"
  have "draws_ok (dis_gen ?g0)"
    using assms by (simp add: Terrain_new_draws)
  from resetGame_defined [OF this] obtain g1 where "resetGame ?g0 = Some g1"
    by blast
  then show ?thesis
    by (simp add: Game_new_def Let_def split_def)
qed

lemma Game_reachable_inhabited: "\<exists>g. Game_reachable g"
proof -
  have "draws_ok (\<lambda>n. 1 / 2)"
    by (simp add: draws_ok_def)
  from Game_new_defined [OF this, of "\<lambda>n. 0"] obtain g where
    "Game_new (\<lambda>n. 1 / 2) (\<lambda>n. 0) = Some g"
    by blast
  then show ?thesis
    using Game_reachable.constructed by blast
qed

subsection \<open>The update of a constructed game is defined\<close>

lemma add_obstacle_frame:
  "frame (add_obstacle i g) = frame g" "trees (add_obstacle i g) = trees g"
  "grassPatches (add_obstacle i g) = grassPatches g"
  "\<exists>ob. obstacles (add_obstacle i g) = obstacles g @ [ob]"
  by (simp_all add: frame_def add_obstacle_def dis_def rand_def Let_def split_def)

lemma add_collectible_frame:
  "frame (add_collectible i g) = frame g" "trees (add_collectible i g) = trees g"
  "grassPatches (add_collectible i g) = grassPatches g"
  "obstacles (add_collectible i g) = obstacles g"
  by (simp_all add: frame_def add_collectible_def dis_def Let_def split_def)

lemma add_tree_frame:
  assumes "add_tree i g = Some g'"
  shows "frame g' = frame g \<and> obstacles g' = obstacles g \<and>
         grassPatches g' = grassPatches g \<and> (\<exists>tr. trees g' = trees g @ [tr])"
  using assms
  by (auto simp add: frame_def add_tree_def dis_def Let_def split_def split: option.splits)

lemma add_grass_frame:
  assumes "add_grass i g = Some g'"
  shows "frame g' = frame g \<and> obstacles g' = obstacles g \<and> trees g' = trees g \<and>
         (\<exists>gr. grassPatches g' = grassPatches g @ [gr])"
  using assms
  by (auto simp add: frame_def add_grass_def dis_def Let_def split_def split: option.splits)

lemma generateObstacles_from_frame:
  "frame (generateObstacles_from count i g) = frame g \<and>
   trees (generateObstacles_from count i g) = trees g \<and>
   grassPatches (generateObstacles_from count i g) = grassPatches g \<and>
   (obstacles g \<noteq> [] \<or> i < count \<longrightarrow> obstacles (generateObstacles_from count i g) \<noteq> [])"
proof (induction count i g rule: generateObstacles_from.induct)
  case (1 count i g)
  show ?case
  proof (cases "i < count")
    case True
    have "obstacles (add_obstacle i g) \<noteq> []"
      using add_obstacle_frame(4) [of i g] by auto
    then show ?thesis
      using True "1.IH" [OF True]
      by (simp add: generateObstacles_from.simps [of count i g] add_obstacle_frame)
  next
    case False
    then show ?thesis
      by (simp add: generateObstacles_from.simps [of count i g])
  qed
qed

lemma generateCollectibles_from_frame:
  "frame (generateCollectibles_from count i g) = frame g \<and>
   trees (generateCollectibles_from count i g) = trees g \<and>
   grassPatches (generateCollectibles_from count i g) = grassPatches g \<and>
   obstacles (generateCollectibles_from count i g) = obstacles g"
proof (induction count i g rule: generateCollectibles_from.induct)
  case (1 count i g)
  then show ?case
    by (cases "i < count")
      (simp_all add: generateCollectibles_from.simps [of count i g] add_collectible_frame)
qed

lemma generateTrees_from_frame:
  "generateTrees_from count i g = Some g' \<Longrightarrow>
   frame g' = frame g \<and> obstacles g' = obstacles g \<and> grassPatches g' = grassPatches g \<and>
   (trees g \<noteq> [] \<or> i < count \<longrightarrow> trees g' \<noteq> [])"
proof (induction count i g rule: generateTrees_from.induct)
  case (1 count i g)
  show ?case
  proof (cases "i < count")
    case True
    then obtain g1 where a: "add_tree i g = Some g1"
      and r: "generateTrees_from count (i + 1) g1 = Some g'"
      using "1.prems" by (simp add: generateTrees_from.simps [of count i g] split: option.splits)
    have "trees g1 \<noteq> []"
      using add_tree_frame [OF a] by auto
    then show ?thesis
      using "1.IH" [OF True a r] add_tree_frame [OF a] by simp
  next
    case False
    then show ?thesis
      using "1.prems" by (simp add: generateTrees_from.simps [of count i g])
  qed
qed

lemma generateGrass_from_frame:
  "generateGrass_from count i g = Some g' \<Longrightarrow>
   frame g' = frame g \<and> obstacles g' = obstacles g \<and> trees g' = trees g \<and>
   (grassPatches g \<noteq> [] \<or> i < count \<longrightarrow> grassPatches g' \<noteq> [])"
proof (induction count i g rule: generateGrass_from.induct)
  case (1 count i g)
  show ?case
  proof (cases "i < count")
    case True
    then obtain g1 where a: "add_grass i g = Some g1"
      and r: "generateGrass_from count (i + 1) g1 = Some g'"
      using "1.prems" by (simp add: generateGrass_from.simps [of count i g] split: option.splits)
    have "grassPatches g1 \<noteq> []"
      using add_grass_frame [OF a] by auto
    then show ?thesis
      using "1.IH" [OF True a r] add_grass_frame [OF a] by simp
  next
    case False
    then show ?thesis
      using "1.prems" by (simp add: generateGrass_from.simps [of count i g])
  qed
qed

lemma length_generateHeightMap_x:
  "length (fst (generateHeightMap_x w z x acc)) = length (fst acc) + nat (w - x)"
proof (induction w z x acc rule: generateHeightMap_x.induct)
  case (1 w z x hm src)
  show ?case
  proof (cases "x < w")
    case True
    then have "nat (w - x) = Suc (nat (w - (x + 1)))"
      by linarith
    then show ?thesis
      using True "1.IH" [OF True] by (simp add: generateHeightMap_x.simps [of w z x hm src])
  next
    case False
    then show ?thesis
      by (simp add: generateHeightMap_x.simps [of w z x hm src])
  qed
qed

lemma length_generateHeightMap_z:
  "0 \<le> w \<Longrightarrow>
   length (fst (generateHeightMap_z w d z acc)) = length (fst acc) + nat (d - z) * nat w"
proof (induction w d z acc rule: generateHeightMap_z.induct)
  case (1 w d z acc)
  show ?case
  proof (cases "z < d")
    case True
    then have "nat (d - z) = Suc (nat (d - (z + 1)))"
      by linarith
    then show ?thesis
      using True "1.IH" [OF True "1.prems"]
      by (simp add: generateHeightMap_z.simps [of w d z acc] length_generateHeightMap_x)
  next
    case False
    then show ?thesis
      by (simp add: generateHeightMap_z.simps [of w d z acc])
  qed
qed

lemma length_heightMap_Terrain_new:
  "length (heightMap (fst (Terrain_new 100 200 grid src))) = 20000"
  using length_generateHeightMap_z [of 100 200 0 "([], src)"]
  by (simp add: Terrain_new_def split_def Let_def)

lemma getHeight_defined:
  assumes t: "gridSize t = 1" "width t = 100" "depth t = 200"
    and len: "length (heightMap t) = 20000"
    and x: "\<bar>x\<bar> \<le> 2000" and z: "\<bar>z\<bar> \<le> 2000"
  shows "\<exists>h. getHeight t x z = Some h"
proof -
  have gx: "grid_x t x = x + 50" and gz: "grid_z t z = z + 100"
    using t by (simp_all add: grid_x_def grid_z_def int_div_def)
  have xi: "float_to_int (grid_x t x) = Some (float_trunc (grid_x t x))"
    unfolding gx using x by (intro float_to_int_defined) linarith+
  have zi: "float_to_int (grid_z t z) = Some (float_trunc (grid_z t z))"
    unfolding gz using z by (intro float_to_int_defined) linarith+
  have gs: "gridSize t \<noteq> 0"
    using t by simp
  let ?xi = "float_trunc (grid_x t x)" and ?zi = "float_trunc (grid_z t z)"
  show ?thesis
  proof (cases "?xi < 0 \<or> ?xi \<ge> width t - 1 \<or> ?zi < 0 \<or> ?zi \<ge> depth t - 1")
    case True
    then show ?thesis
      using getHeight_index_out_of_range [OF gs xi zi] by blast
  next
    case False
    then have rng: "0 \<le> ?xi" "?xi < width t - 1" "0 \<le> ?zi" "?zi < depth t - 1"
      by simp_all
    have l: "int (length (heightMap t)) = width t * depth t"
      using t len by simp
    show ?thesis
      using getHeight_in_cell [OF gs xi zi rng l] by blast
  qed
qed

lemma getNormal_defined:
  assumes t: "gridSize t = 1" "width t = 100" "depth t = 200"
    and len: "length (heightMap t) = 20000"
    and x: "\<bar>x\<bar> \<le> 1000" and z: "\<bar>z\<bar> \<le> 1000"
  shows "\<exists>n. getNormal t x z = Some n"
proof -
  obtain hL where hL: "getHeight t (x - 0.1) z = Some hL"
    using getHeight_defined [OF t len, of "x - 0.1" z] x z by fastforce
  obtain hR where hR: "getHeight t (x + 0.1) z = Some hR"
    using getHeight_defined [OF t len, of "x + 0.1" z] x z by fastforce
  obtain hD where hD: "getHeight t x (z - 0.1) = Some hD"
    using getHeight_defined [OF t len, of x "z - 0.1"] x z by fastforce
  obtain hU where hU: "getHeight t x (z + 0.1) = Some hU"
    using getHeight_defined [OF t len, of x "z + 0.1"] x z by fastforce
  show ?thesis
    by (simp add: getNormal_def Let_def hL hR hD hU Vec3_normalize_total)
qed

lemma terrain_collision_defined:
  assumes t: "gridSize t = 1" "width t = 100" "depth t = 200"
    and len: "length (heightMap t) = 20000"
    and x: "\<bar>xc (position q)\<bar> \<le> 1000" and z: "\<bar>zc (position q)\<bar> \<le> 1000"
  shows "\<exists>p. terrain_collision t q = Some p \<and> position p =
           (if yc (position q) - radius q < the (getHeight t (xc (position q)) (zc (position q)))
            then set_y (position q)
                   (the (getHeight t (xc (position q)) (zc (position q))) + radius q)
            else position q)"
proof -
  obtain h where h: "getHeight t (xc (position q)) (zc (position q)) = Some h"
    using getHeight_defined [OF t len, of "xc (position q)" "zc (position q)"] x z by fastforce
  obtain n where n: "getNormal t (xc (position q)) (zc (position q)) = Some n"
    using getNormal_defined [OF t len x z] by blast
  show ?thesis
    by (simp add: terrain_collision_def h n Let_def set_y_def)
qed

lemma check_obstacles_nonempty:
  "obs \<noteq> [] \<Longrightarrow> fst (check_obstacles obs p sc) \<noteq> []"
  by (cases obs) (simp_all add: Let_def split_def)

lemma check_game_over_fields [simp]:
  "obstacles (check_game_over g) = obstacles g" "trees (check_game_over g) = trees g"
  "grassPatches (check_game_over g) = grassPatches g" "terrain (check_game_over g) = terrain g"
  "dis_gen (check_game_over g) = dis_gen g" "player (check_game_over g) = player g"
  "collectibles (check_game_over g) = collectibles g"
  by (simp_all add: check_game_over_def)

lemma updateCamera_fields [simp]:
  "obstacles (updateCamera dt g) = obstacles g" "trees (updateCamera dt g) = trees g"
  "grassPatches (updateCamera dt g) = grassPatches g" "terrain (updateCamera dt g) = terrain g"
  "dis_gen (updateCamera dt g) = dis_gen g" "player (updateCamera dt g) = player g"
  "collectibles (updateCamera dt g) = collectibles g"
  by (simp_all add: updateCamera_def Let_def)

lemma update_progression_fields [simp]:
  "obstacles (update_progression dt g) = obstacles g" "trees (update_progression dt g) = trees g"
  "grassPatches (update_progression dt g) = grassPatches g"
  "terrain (update_progression dt g) = terrain g"
  "dis_gen (update_progression dt g) = dis_gen g" "player (update_progression dt g) = player g"
  "collectibles (update_progression dt g) = collectibles g"
  by (simp_all add: update_progression_def Let_def)

lemma generate_more_defined:
  assumes "gen_inv g" "obstacles g \<noteq> []" "trees g \<noteq> []" "grassPatches g \<noteq> []"
  shows "\<exists>g'. generate_more g = Some g'"
proof -
  define g1 where "g1 = (if zc (o_position (last (obstacles g))) > zc (position (player g)) - 100
                         then generateObstacles 5 g else g)"
  define g2 where "g2 = (if collectibles g1 = [] \<or>
                            zc (last (collectibles g1)) > zc (position (player g1)) - 80
                         then generateCollectibles 3 g1 else g1)"
  have i1: "gen_inv g1" "trees g1 = trees g" "grassPatches g1 = grassPatches g"
    using assms(1)
    by (simp_all add: g1_def generateObstacles_def generateObstacles_from_gen_inv
        generateObstacles_from_frame)
  have i2: "gen_inv g2" "trees g2 = trees g" "grassPatches g2 = grassPatches g"
    using i1
    by (simp_all add: g2_def generateCollectibles_def generateCollectibles_from_gen_inv
        generateCollectibles_from_frame)
  obtain g3 where g3: "(if zc (t_position (last (trees g2))) > zc (position (player g2)) - 150
                        then generateTrees 5 g2 else Some g2) = Some g3"
    and i3: "gen_inv g3" "grassPatches g3 = grassPatches g2"
  proof (cases "zc (t_position (last (trees g2))) > zc (position (player g2)) - 150")
    case True
    obtain g3 where a: "generateTrees_from 5 0 g2 = Some g3" and b: "gen_inv g3"
      using generateTrees_from_defined [OF i2(1), of 0 5] by auto
    show ?thesis
      using that [of g3] True a b generateTrees_from_frame [OF a]
      by (simp add: generateTrees_def)
  next
    case False
    then show ?thesis
      using that [of g2] i2 by simp
  qed
  have "\<exists>g'. (if zc (last (grassPatches g3)) > zc (position (player g3)) - 100
                 then generateGrass 10 g3 else Some g3) = Some g'"
    using generateGrass_from_defined [OF i3(1), of 0 10]
    by (auto simp add: generateGrass_def)
  then obtain g' where g': "(if zc (last (grassPatches g3)) > zc (position (player g3)) - 100
                             then generateGrass 10 g3 else Some g3) = Some g'"
    by blast
  have t2: "trees g2 \<noteq> []" and gr3: "grassPatches g3 \<noteq> []"
    using assms i2 i3 by simp_all
  show ?thesis
    using assms(2) t2 gr3 g3 g' unfolding g2_def g1_def
    by (simp add: generate_more_def vector_back_def Let_def split del: if_split)
qed

lemma Game_update_defined:
  assumes wf: "Game_wf g" and playing: "currentState g = PLAYING"
    and x: "\<bar>xc (position (MetaBall_update deltaTime (Vec3 0 (- 9.8) 0) (player g)))\<bar> \<le> 1000"
    and z: "\<bar>zc (position (MetaBall_update deltaTime (Vec3 0 (- 9.8) 0) (player g)))\<bar> \<le> 1000"
  shows "\<exists>g'. Game_update deltaTime g = Some g'"
proof -
  have t: "gridSize (terrain g) = 1" "width (terrain g) = 100" "depth (terrain g) = 200"
    and len: "length (heightMap (terrain g)) = 20000"
    and inv: "gen_inv g"
    and ne: "obstacles g \<noteq> []" "trees g \<noteq> []" "grassPatches g \<noteq> []"
    using wf by (simp_all add: Game_wf_def gen_inv_def)
  obtain p where p: "player_step deltaTime (terrain g) (player g) = Some p"
    using terrain_collision_defined [OF t len x z] by (auto simp add: player_step_def)
  have "\<exists>g'. generate_more (updateCamera deltaTime (check_game_over G)) = Some g'"
    if "gen_inv G" "obstacles G \<noteq> []" "trees G \<noteq> []" "grassPatches G \<noteq> []" for G
    using that by (intro generate_more_defined) (simp_all add: gen_inv_def)
  note gm = this
  show ?thesis
    using playing p inv ne check_obstacles_nonempty [OF ne(1)]
    by (auto simp add: Game_update_def Let_def split_def gen_inv_def intro!: gm)
qed

lemma resetGame_wf:
  assumes d: "draws_ok (dis_gen g)" and r: "resetGame g = Some g'"
  shows "Game_wf g' \<and> player g' = MetaBall_new \<and> currentState g' = PLAYING"
proof -
  define g4 where "g4 =
    g\<lparr>player := MetaBall_new,
      terrain := fst (Terrain_new 100 200 1.0 (dis_gen g)),
      dis_gen := snd (Terrain_new 100 200 1.0 (dis_gen g)),
      obstacles := [], collectibles := [], trees := [], grassPatches := [],
      gameSpeed := 10.0, difficulty := 1.0, score := 0, distance := 0,
      gameOver := False, gamePaused := False, environmentRotation := 0,
      currentState := PLAYING\<rparr>"
  define g6 where "g6 = generateCollectibles 10 (generateObstacles 20 g4)"
  have i4: "gen_inv g4"
    using d by (simp add: g4_def gen_inv_def Terrain_new_fields Terrain_new_draws)
  then have i6: "gen_inv g6"
    by (simp add: g6_def generateCollectibles_def generateObstacles_def
        generateCollectibles_from_gen_inv generateObstacles_from_gen_inv)
  have f4: "frame g4 = (MetaBall_new, fst (Terrain_new 100 200 1.0 (dis_gen g)), PLAYING, 0, 10)"
    by (simp add: frame_def g4_def)
  have f6: "frame g6 = frame g4" and o6: "obstacles g6 \<noteq> []"
    using generateObstacles_from_frame [of 20 0 g4]
    by (simp_all add: g6_def generateCollectibles_def generateObstacles_def
        generateCollectibles_from_frame)
  from r obtain g7 where t: "generateTrees_from 30 0 g6 = Some g7"
    and gr: "generateGrass_from 50 0 g7 = Some g'"
    by (auto simp add: resetGame_def Let_def split_def g6_def g4_def generateTrees_def
        generateGrass_def split: option.splits)
  have i7: "gen_inv g7"
    using generateTrees_from_defined [OF i6, of 0 30] t by auto
  have i': "gen_inv g'"
    using generateGrass_from_defined [OF i7, of 0 50] gr by auto
  have f7: "frame g7 = frame g6" "obstacles g7 = obstacles g6" "trees g7 \<noteq> []"
    using generateTrees_from_frame [OF t] by simp_all
  have f': "frame g' = frame g7" "obstacles g' = obstacles g7" "trees g' = trees g7"
    "grassPatches g' \<noteq> []"
    using generateGrass_from_frame [OF gr] by simp_all
  have fr: "frame g' = (MetaBall_new, fst (Terrain_new 100 200 1.0 (dis_gen g)), PLAYING, 0, 10)"
    using f' f7 f6 f4 by simp
  then have "length (heightMap (terrain g')) = 20000"
    by (simp add: frame_def length_heightMap_Terrain_new)
  then show ?thesis
    using i' fr f' f7 o6 by (simp add: Game_wf_def frame_def)
qed

lemma Game_new_wf:
  assumes d: "draws_ok src" and n: "Game_new src rsrc = Some g"
  shows "Game_wf g \<and> player g = MetaBall_new \<and> currentState g = PLAYING"
proof -
  let ?g0 = "\<lparr>player = MetaBall_new, terrain = fst (Terrain_new 100 200 1.0 src),
      obstacles = [], collectibles = [], trees = [], grassPatches = [],
      gameSpeed = 10.0, difficulty = 1.0, score = 0, distance = 0,
      gameOver = False, gamePaused = False, inMenu = True,
      cameraPosition = Vec3 0 0 0, g_cameraTarget = Vec3 0 0 0,
      cameraAngle = 0, g_cameraDistance = 8.0,
      environmentRotation = 0, environmentRotationSpeed = 0.1,
      currentState = MENU, dis_gen = snd (Terrain_new 100 200 1.0 src), rand_gen = rsrc\<rparr>"
  from n obtain g1 where r: "resetGame ?g0 = Some g1"
    and g: "g = g1\<lparr>cameraPosition := Vec3 0 5 10,
                g_cameraTarget := position (player (g1\<lparr>cameraPosition := Vec3 0 5 10\<rparr>))\<rparr>"
    by (auto simp add: Game_new_def Let_def split_def split: option.splits)
  have "draws_ok (dis_gen ?g0)"
    using d by (simp add: Terrain_new_draws)
  from resetGame_wf [OF this r] show ?thesis
    unfolding g by (simp add: Game_wf_def gen_inv_def)
qed

text \<open>
  Claim C10. For every call of \<^verbatim>\<open>Game::update\<close> with \<open>deltaTime \<ge> 0\<close> in the
  \<^verbatim>\<open>PLAYING\<close> state, a non-negative score stays non-negative: the progression adds
  \<open>gameSpeed * deltaTime * 0.1\<close> with a speed that is at least \<open>10\<close> in every state a
  game reaches, the obstacle penalty is clamped at zero and a pickup adds \<open>50\<close>. The
  statement is about the calls that return: the update is undefined only where the
  source is, at \<^verbatim>\<open>back()\<close> of an empty vector and at a coordinate that does not fit an
  \<^verbatim>\<open>int\<close>.
\<close>

theorem update_keeps_score_nonnegative:
  assumes "Game_reachable g"
    and "currentState g = PLAYING"
    and "0 \<le> deltaTime"
    and "0 \<le> score g"
    and "Game_update deltaTime g = Some g'"
  shows "0 \<le> score g'"
  using Game_update_invariant [OF assms(3) Game_reachable_invariant [OF assms(1)] assms(5)]
  by simp

theorem update_keeps_score_nonnegative_witness:
  "Game_reachable (the (Game_new (\<lambda>n. 1 / 2) (\<lambda>n. 0))) \<and>
   currentState (the (Game_new (\<lambda>n. 1 / 2) (\<lambda>n. 0))) = PLAYING \<and>
   (0 :: real) \<le> 0.1 \<and>
   0 \<le> score (the (Game_new (\<lambda>n. 1 / 2) (\<lambda>n. 0))) \<and>
   Game_update 0.1 (the (Game_new (\<lambda>n. 1 / 2) (\<lambda>n. 0))) \<noteq> None \<and>
   0 \<le> score (the (Game_update 0.1 (the (Game_new (\<lambda>n. 1 / 2) (\<lambda>n. 0)))))"
proof -
  have d: "draws_ok (\<lambda>n. 1 / 2)"
    by (simp add: draws_ok_def)
  obtain G where G: "Game_new (\<lambda>n. 1 / 2) (\<lambda>n. 0) = Some G"
    using Game_new_defined [OF d] by blast
  have r: "Game_reachable G"
    by (rule Game_reachable.constructed [OF G])
  have wf: "Game_wf G" and pl: "player G = MetaBall_new" and st: "currentState G = PLAYING"
    using Game_new_wf [OF d G] by simp_all
  have sc: "0 \<le> score G"
    using Game_new_score [OF G] by simp
  have pos:
    "\<bar>xc (position (MetaBall_update 0.1 (Vec3 0 (- 9.8) 0) (player G)))\<bar> \<le> 1000"
    "\<bar>zc (position (MetaBall_update 0.1 (Vec3 0 (- 9.8) 0) (player G)))\<bar> \<le> 1000"
    unfolding pl
    by (simp_all add: MetaBall_update_def keep_within_bounds_def ground_collision_def
        update_rotation_def integrate_def MetaBall_new_def Vec3_plus_def Vec3_times_def
        set_x_def set_y_def set_z_def Let_def)
  obtain G' where u: "Game_update 0.1 G = Some G'"
    using Game_update_defined [OF wf st pos] by blast
  have "0 \<le> score G'"
    using update_keeps_score_nonnegative [OF r st _ sc u] by simp
  then show ?thesis
    using G r st sc u by simp
qed

lemma real_sqrt_less_pos: "0 < c \<Longrightarrow> sqrt x < c \<longleftrightarrow> x < c\<^sup>2"
  by (metis abs_of_pos real_sqrt_abs real_sqrt_less_iff)

text \<open>
  One frame of \<open>0.1\<close> seconds on the sample state: the ball falls to \<open>y = 1.902\<close>,
  hits the obstacle it stands in (health \<open>90\<close>, velocity reversed and halved), and the
  penalty of \<open>20\<close> on a score of \<open>5.1\<close> is clamped to \<open>0\<close>.
\<close>

lemma Game_update_sample:
  "Game_update 0.1 Game_sample =
     Some
       \<lparr>player =
          \<lparr>position = Vec3 0 1.902 0, velocity = Vec3 0 0.49 0,
           acceleration = Vec3 0 (- 9.8) 0, radius = 0.5, color = Vec3 0.2 0.8 0.9,
           rotationAngle = 0.2, rotationSpeed = 2, mass = 1, elasticity = 0.8, health = 90,
           isAlive = True\<rparr>,
        terrain = \<lparr>heightMap = [0, 0, 0, 0], width = 2, depth = 2, gridSize = 1\<rparr>,
        obstacles =
          [\<lparr>o_position = Vec3 0 0 0, o_width = 1, o_height = 4, o_depth = 1,
            o_color = Vec3 0.9 0.3 0.1, isActive = False, damage = 10, o_type = 0\<rparr>,
           \<lparr>o_position = Vec3 0 0 (- 1000), o_width = 1, o_height = 1, o_depth = 1,
            o_color = Vec3 0.9 0.3 0.1, isActive = False, damage = 10, o_type = 0\<rparr>],
        collectibles = [Vec3 0 2 (- 1000)],
        trees =
          [\<lparr>t_position = Vec3 102 0 (- 1000), t_height = 3, trunkRadius = 0.2,
            foliageRadius = 1.5, trunkColor = Vec3 0.4 0.2 0.1,
            foliageColor = Vec3 0.1 0.5 0.2\<rparr>],
        grassPatches = [Vec3 101 0.1 (- 1000)],
        gameSpeed = 10.01, difficulty = 1.001, score = 0, distance = 1,
        gameOver = False, gamePaused = False, inMenu = False,
        cameraPosition = Vec3 (sin 0.05 * 8) 5.951 (cos 0.05 * 8),
        g_cameraTarget = Vec3 0 1.951 0, cameraAngle = 0.05, g_cameraDistance = 8,
        environmentRotation = 0.01, environmentRotationSpeed = 0.1,
        currentState = PLAYING, dis_gen = (\<lambda>n. 0.5), rand_gen = (\<lambda>n. 0)\<rparr>"
  by (simp add: Game_update_def Game_sample_def player_step_def terrain_collision_def
      MetaBall_update_def keep_within_bounds_def ground_collision_def update_rotation_def
      integrate_def MetaBall_new_def getHeight_def float_to_int_def float_trunc_def int_div_def
      update_progression_def checkCollision_def Obstacle_new_def takeDamage_def
      check_game_over_def updateCamera_def generate_more_def vector_back_def Tree_new_def
      Vec3_plus_def Vec3_minus_def Vec3_times_def Vec3_length_def Vec3_lerp_def
      set_x_def set_y_def set_z_def real_sqrt_less_pos Let_def)

subsection \<open>The player step: ground and terrain collision\<close>

lemma terrain_collision_xz:
  assumes "terrain_collision t q = Some p'"
  shows "xc (position p') = xc (position q) \<and> zc (position p') = zc (position q) \<and>
         radius p' = radius q"
  using assms
  by (auto simp add: terrain_collision_def Let_def set_y_def split: option.splits if_splits)

lemma terrain_collision_cases:
  assumes "terrain_collision t q = Some p'"
  shows "\<exists>h. getHeight t (xc (position q)) (zc (position q)) = Some h \<and>
           (if yc (position q) - radius q < h
            then yc (position p') = h + radius q \<and>
                 (\<exists>n. getNormal t (xc (position q)) (zc (position q)) = Some n \<and>
                    velocity p' =
                      Vec3_minus (set_y (velocity q) 0)
                        (Vec3_times (Vec3_times n (Vec3_dot (set_y (velocity q) 0) n)) 0.1))
            else p' = q)"
  using assms
  by (auto simp add: terrain_collision_def Let_def set_y_def split: option.splits if_splits)

lemma ground_bounce:
  assumes "isAlive p"
    and "yc (position p) + (yc (velocity p) + yc gravity * deltaTime) * deltaTime - radius p < 0"
  shows "yc (position (MetaBall_update deltaTime gravity p)) = radius p \<and>
         yc (velocity (MetaBall_update deltaTime gravity p)) =
           - (yc (velocity p) + yc gravity * deltaTime) * elasticity p * 0.95"
  using assms
  by (simp add: MetaBall_update_def keep_within_bounds_def ground_collision_def
      update_rotation_def integrate_def Let_def Vec3_plus_def Vec3_times_def
      set_x_def set_y_def set_z_def algebra_simps)

lemma sqrt_one_25th: "sqrt (1 / 25) = 1 / 5"
  by (rule real_sqrt_unique) (simp_all add: power2_eq_square)

text \<open>
  Claim C1, as stated: when the ball is below the terrain before the step, the step
  leaves \<^verbatim>\<open>velocity.y\<close> with the sign flipped and scaled by the elasticity. On a flat
  terrain of height \<open>1\<close>, a ball of radius \<open>0.5\<close> at height \<open>1.2\<close> falling with
  \<open>velocity.y = -1\<close> is below the terrain; after a step of \<open>0.01\<close> seconds it sits on
  the terrain at \<open>y = 1.5\<close> with \<open>velocity.y = 0\<close>, not with the \<open>0.8\<close> (or any
  positive value) a reflection would give. The position part of the claim holds there.
\<close>

theorem terrain_collision_zeroes_velocity_counterexample:
  "getHeight \<lparr>heightMap = [1, 1, 1, 1], width = 2, depth = 2, gridSize = 1\<rparr> (- 0.5) (- 0.5)
     = Some 1 \<and>
   yc (position (MetaBall_new\<lparr>position := Vec3 (- 0.5) 1.2 (- 0.5), velocity := Vec3 0 (- 1) 0\<rparr>))
     - radius (MetaBall_new\<lparr>position := Vec3 (- 0.5) 1.2 (- 0.5), velocity := Vec3 0 (- 1) 0\<rparr>)
     < 1 \<and>
   player_step 0.01 \<lparr>heightMap = [1, 1, 1, 1], width = 2, depth = 2, gridSize = 1\<rparr>
     (MetaBall_new\<lparr>position := Vec3 (- 0.5) 1.2 (- 0.5), velocity := Vec3 0 (- 1) 0\<rparr>)
     = Some (MetaBall_new\<lparr>position := Vec3 (- 0.5) 1.5 (- 0.5), velocity := Vec3 0 0 0,
               acceleration := Vec3 0 (- 9.8) 0, rotationAngle := 0.02\<rparr>)"
  by (simp add: player_step_def terrain_collision_def getNormal_def getHeight_def
      MetaBall_update_def keep_within_bounds_def ground_collision_def update_rotation_def
      integrate_def MetaBall_new_def float_to_int_def float_trunc_def int_div_def fmod_def
      elem_at_def Vec3_normalize_def Vec3_divide_def fdiv_def Vec3_length_def Vec3_dot_def
      Vec3_plus_def Vec3_minus_def Vec3_times_def set_x_def set_y_def set_z_def
      sqrt_one_25th Let_def)

text \<open>
  Claim C1, amended. After one step of the player in \<^verbatim>\<open>Game::update\<close> (the ball update
  with \<open>deltaTime \<ge> 0\<close>, followed by the terrain collision) in which the ball was below
  the terrain before the step, \<open>position.y - radius \<ge> terrainHeight - 1e-4\<close> after the
  step. The velocity is not reflected at the terrain: when the ball is below the terrain
  after the ball update, the terrain collision sets \<^verbatim>\<open>velocity.y\<close> to zero and then
  removes a tenth of the velocity along the terrain normal; otherwise it leaves the ball
  as the ball update returned it. The reflection \<open>velocity.y * -elasticity\<close>, followed by
  the damping factor \<open>0.95\<close>, is what the ball update does at the plane \<open>y = 0\<close>, on the
  velocity after the gravity step.
\<close>

theorem player_step_collisions:
  assumes "0 \<le> deltaTime"
    and "getHeight t (xc (position p)) (zc (position p)) = Some h0"
    and "yc (position p) - radius p < h0"
    and "player_step deltaTime t p = Some p'"
  shows "\<exists>h. getHeight t (xc (position p')) (zc (position p')) = Some h \<and>
           yc (position p') - radius p' \<ge> h - 0.0001 \<and>
           (let q = MetaBall_update deltaTime (Vec3 0 (- 9.8) 0) p
            in (if yc (position q) - radius q < h
                then \<exists>n. getNormal t (xc (position q)) (zc (position q)) = Some n \<and>
                        velocity p' =
                          Vec3_minus (set_y (velocity q) 0)
                            (Vec3_times (Vec3_times n (Vec3_dot (set_y (velocity q) 0) n)) 0.1)
                else p' = q) \<and>
               (isAlive p \<and>
                yc (position p) + (yc (velocity p) - 9.8 * deltaTime) * deltaTime - radius p < 0
                \<longrightarrow> yc (velocity q) = - (yc (velocity p) - 9.8 * deltaTime) * elasticity p * 0.95))"
proof -
  define q where "q = MetaBall_update deltaTime (Vec3 0 (- 9.8) 0) p"
  have tc: "terrain_collision t q = Some p'"
    using assms(4) by (simp add: player_step_def q_def)
  from terrain_collision_cases [OF tc] obtain h where
    h: "getHeight t (xc (position q)) (zc (position q)) = Some h"
    and c: "if yc (position q) - radius q < h
            then yc (position p') = h + radius q \<and>
                 (\<exists>n. getNormal t (xc (position q)) (zc (position q)) = Some n \<and>
                    velocity p' =
                      Vec3_minus (set_y (velocity q) 0)
                        (Vec3_times (Vec3_times n (Vec3_dot (set_y (velocity q) 0) n)) 0.1))
            else p' = q"
    by blast
  note xz = terrain_collision_xz [OF tc]
  have h': "getHeight t (xc (position p')) (zc (position p')) = Some h"
    using h xz by simp
  have "h \<le> yc (position p') - radius p'"
    using c xz by (cases "yc (position q) - radius q < h") simp_all
  then have above: "yc (position p') - radius p' \<ge> h - 0.0001"
    by simp
  have c': "if yc (position q) - radius q < h
            then \<exists>n. getNormal t (xc (position q)) (zc (position q)) = Some n \<and>
                    velocity p' =
                      Vec3_minus (set_y (velocity q) 0)
                        (Vec3_times (Vec3_times n (Vec3_dot (set_y (velocity q) 0) n)) 0.1)
            else p' = q"
    using c by (cases "yc (position q) - radius q < h") simp_all
  have bounce: "isAlive p \<and>
      yc (position p) + (yc (velocity p) - 9.8 * deltaTime) * deltaTime - radius p < 0
      \<longrightarrow> yc (velocity q) = - (yc (velocity p) - 9.8 * deltaTime) * elasticity p * 0.95"
    using ground_bounce [of p "Vec3 0 (- 9.8) 0" deltaTime] by (simp add: q_def)
  show ?thesis
    using h' above c' bounce unfolding q_def [symmetric] Let_def by blast
qed

theorem player_step_collisions_witness:
  "(0 :: real) \<le> 0.01 \<and>
   getHeight \<lparr>heightMap = [1, 1, 1, 1], width = 2, depth = 2, gridSize = 1\<rparr>
     (xc (position (MetaBall_new\<lparr>position := Vec3 (- 0.5) 0.4 (- 0.5), velocity := Vec3 0 (- 1) 0\<rparr>)))
     (zc (position (MetaBall_new\<lparr>position := Vec3 (- 0.5) 0.4 (- 0.5), velocity := Vec3 0 (- 1) 0\<rparr>))) = Some 1 \<and>
   yc (position (MetaBall_new\<lparr>position := Vec3 (- 0.5) 0.4 (- 0.5), velocity := Vec3 0 (- 1) 0\<rparr>)) - radius (MetaBall_new\<lparr>position := Vec3 (- 0.5) 0.4 (- 0.5), velocity := Vec3 0 (- 1) 0\<rparr>) < 1 \<and>
   player_step 0.01 \<lparr>heightMap = [1, 1, 1, 1], width = 2, depth = 2, gridSize = 1\<rparr>
     (MetaBall_new\<lparr>position := Vec3 (- 0.5) 0.4 (- 0.5), velocity := Vec3 0 (- 1) 0\<rparr>)
     = Some (MetaBall_new\<lparr>position := Vec3 (- 0.5) 1.5 (- 0.5), velocity := Vec3 0 0 0,
               acceleration := Vec3 0 (- 9.8) 0, rotationAngle := 0.02\<rparr>) \<and>
   isAlive (MetaBall_new\<lparr>position := Vec3 (- 0.5) 0.4 (- 0.5), velocity := Vec3 0 (- 1) 0\<rparr>) \<and>
   (0.4 :: real) + (- 1 - 9.8 * 0.01) * 0.01 - 0.5 < 0 \<and>
   yc (velocity (MetaBall_update 0.01 (Vec3 0 (- 9.8) 0)
     (MetaBall_new\<lparr>position := Vec3 (- 0.5) 0.4 (- 0.5), velocity := Vec3 0 (- 1) 0\<rparr>)))
     = 0.83448 \<and>
   getHeight \<lparr>heightMap = [1, 1, 1, 1], width = 2, depth = 2, gridSize = 1\<rparr> (- 0.5) (- 0.5)
     = Some 1"
proof -
  have dt: "(0 :: real) \<le> 0.01"
    by simp
  have height:
    "getHeight \<lparr>heightMap = [1, 1, 1, 1], width = 2, depth = 2, gridSize = 1\<rparr> (- 0.5) (- 0.5)
       = Some 1"
    by (simp add: getHeight_def float_to_int_def float_trunc_def int_div_def fmod_def
        elem_at_def Let_def)
  have pos: "xc (position (MetaBall_new\<lparr>position := Vec3 (- 0.5) 0.4 (- 0.5), velocity := Vec3 0 (- 1) 0\<rparr>)) = - 0.5"
    "zc (position (MetaBall_new\<lparr>position := Vec3 (- 0.5) 0.4 (- 0.5), velocity := Vec3 0 (- 1) 0\<rparr>)) = - 0.5"
    by (simp_all add: MetaBall_new_def)
  have pre: "getHeight \<lparr>heightMap = [1, 1, 1, 1], width = 2, depth = 2, gridSize = 1\<rparr>
     (xc (position (MetaBall_new\<lparr>position := Vec3 (- 0.5) 0.4 (- 0.5), velocity := Vec3 0 (- 1) 0\<rparr>)))
     (zc (position (MetaBall_new\<lparr>position := Vec3 (- 0.5) 0.4 (- 0.5), velocity := Vec3 0 (- 1) 0\<rparr>))) = Some 1"
    unfolding pos by (rule height)
  have under: "yc (position (MetaBall_new\<lparr>position := Vec3 (- 0.5) 0.4 (- 0.5), velocity := Vec3 0 (- 1) 0\<rparr>)) - radius (MetaBall_new\<lparr>position := Vec3 (- 0.5) 0.4 (- 0.5), velocity := Vec3 0 (- 1) 0\<rparr>) < 1"
    by (simp add: MetaBall_new_def)
  have step:
    "player_step 0.01 \<lparr>heightMap = [1, 1, 1, 1], width = 2, depth = 2, gridSize = 1\<rparr>
       (MetaBall_new\<lparr>position := Vec3 (- 0.5) 0.4 (- 0.5), velocity := Vec3 0 (- 1) 0\<rparr>)
       = Some (MetaBall_new\<lparr>position := Vec3 (- 0.5) 1.5 (- 0.5), velocity := Vec3 0 0 0,
                 acceleration := Vec3 0 (- 9.8) 0, rotationAngle := 0.02\<rparr>)"
    by (simp add: player_step_def terrain_collision_def getNormal_def getHeight_def
        MetaBall_update_def keep_within_bounds_def ground_collision_def update_rotation_def
        integrate_def MetaBall_new_def float_to_int_def float_trunc_def int_div_def fmod_def
        elem_at_def Vec3_normalize_def Vec3_divide_def fdiv_def Vec3_length_def Vec3_dot_def
        Vec3_plus_def Vec3_minus_def Vec3_times_def set_x_def set_y_def set_z_def
        sqrt_one_25th Let_def)
  have alive:
    "isAlive (MetaBall_new\<lparr>position := Vec3 (- 0.5) 0.4 (- 0.5), velocity := Vec3 0 (- 1) 0\<rparr>)"
    by (simp add: MetaBall_new_def)
  have below: "(0.4 :: real) + (- 1 - 9.8 * 0.01) * 0.01 - 0.5 < 0"
    by simp
  have bounce:
    "yc (velocity (MetaBall_update 0.01 (Vec3 0 (- 9.8) 0)
       (MetaBall_new\<lparr>position := Vec3 (- 0.5) 0.4 (- 0.5), velocity := Vec3 0 (- 1) 0\<rparr>)))
       = 0.83448"
    by (simp add: MetaBall_update_def keep_within_bounds_def ground_collision_def
        update_rotation_def integrate_def MetaBall_new_def Vec3_plus_def Vec3_times_def
        set_x_def set_y_def set_z_def Let_def)
  show ?thesis
    using player_step_collisions [OF dt pre under step]
    by (simp only: dt pre under step alive below bounce height simp_thms)
qed

section \<open>Properties of the OBJ loader\<close>

lemma parseVertex_no_positions:
  assumes "positions st = []"
  shows "\<exists>e. parseVertex st vertexStr = Inl e"
  using assms
  by (auto simp add: parseVertex_def elem_at_def Let_def split_def split: sum.splits)

lemma parse_face_no_positions:
  assumes "positions st = []"
  shows "\<exists>e. parse_face st s = Inl e"
proof -
  obtain e where "parseVertex st (fst (read_token s)) = Inl e"
    using parseVertex_no_positions [OF assms] by blast
  then show ?thesis
    by (simp add: parse_face_def Let_def split_def)
qed

lemma parse_line_no_v:
  assumes "fst (read_token line) \<noteq> ''v''"
    and "positions st = []" "s_vertices st = []"
    and "parse_line read_float st line = Inr st'"
  shows "positions st' = [] \<and> s_vertices st' = []"
proof (cases "fst (read_token line) = ''f''")
  case True
  then have "parse_line read_float st line = parse_face st (snd (read_token line))"
    by (simp add: parse_line_def Let_def split_def)
  then show ?thesis
    using parse_face_no_positions [OF assms(2), of "snd (read_token line)"] assms(4) by auto
next
  case False
  then show ?thesis
    using assms by (auto simp add: parse_line_def Let_def split_def split: if_splits)
qed

lemma parse_lines_no_v:
  assumes "\<forall>line \<in> set lines. fst (read_token line) \<noteq> ''v''"
    and "positions st = []" "s_vertices st = []"
    and "parse_lines read_float st lines = Inr st'"
  shows "s_vertices st' = []"
  using assms
proof (induction lines arbitrary: st)
  case Nil
  then show ?case by simp
next
  case (Cons line rest)
  from Cons.prems(4) obtain st1 where
    l: "parse_line read_float st line = Inr st1"
    and r: "parse_lines read_float st1 rest = Inr st'"
    by (auto split: sum.splits)
  have "positions st1 = [] \<and> s_vertices st1 = []"
    using parse_line_no_v [OF _ Cons.prems(2,3) l] Cons.prems(1) by simp
  then show ?case
    using Cons.IH [OF _ _ _ r] Cons.prems(1) by simp
qed

text \<open>
  What holds of the two failure cases: a file that cannot be opened makes \<^verbatim>\<open>loadOBJ\<close>
  return \<^verbatim>\<open>false\<close> with the mesh untouched, and on a file without a \<^verbatim>\<open>v\<close> line every
  call that returns at all returns \<^verbatim>\<open>false\<close> with the mesh untouched; it does return
  when the file has no \<^verbatim>\<open>f\<close> line either.
\<close>

lemma loadOBJ_cannot_open: "loadOBJ read_float None mesh = Inr (False, mesh)"
  by (simp add: loadOBJ_def)

lemma loadOBJ_no_v_lines:
  assumes "\<forall>line \<in> set (getlines content). fst (read_token line) \<noteq> ''v''"
    and "loadOBJ read_float (Some content) mesh = Inr (ok, mesh')"
  shows "ok = False \<and> mesh' = mesh"
proof -
  from assms(2) obtain st where
    p: "parse_lines read_float obj_state_initial (getlines content) = Inr st"
    by (auto simp add: loadOBJ_def split: sum.splits)
  have "s_vertices st = []"
    using parse_lines_no_v [OF assms(1) _ _ p] by (simp add: obj_state_initial_def)
  then show ?thesis
    using assms(2) p by (simp add: loadOBJ_def)
qed

lemma parse_lines_no_v_no_f:
  assumes "\<forall>line \<in> set lines. fst (read_token line) \<noteq> ''v'' \<and> fst (read_token line) \<noteq> ''f''"
  shows "\<exists>st'. parse_lines read_float st lines = Inr st' \<and> s_vertices st' = s_vertices st"
  using assms
proof (induction lines arbitrary: st)
  case Nil
  then show ?case by simp
next
  case (Cons line rest)
  have "\<exists>st1. parse_line read_float st line = Inr st1 \<and> s_vertices st1 = s_vertices st"
    using Cons.prems by (auto simp add: parse_line_def Let_def split_def)
  then obtain st1 where l: "parse_line read_float st line = Inr st1"
    and v: "s_vertices st1 = s_vertices st"
    by blast
  from Cons.IH [of st1] Cons.prems obtain st' where
    "parse_lines read_float st1 rest = Inr st'" "s_vertices st' = s_vertices st1"
    by auto
  then show ?case
    using l v by simp
qed

lemma loadOBJ_no_v_no_f_lines:
  assumes "\<forall>line \<in> set (getlines content).
             fst (read_token line) \<noteq> ''v'' \<and> fst (read_token line) \<noteq> ''f''"
  shows "loadOBJ read_float (Some content) mesh = Inr (False, mesh)"
proof -
  from parse_lines_no_v_no_f [OF assms, of read_float obj_state_initial] obtain st where
    "parse_lines read_float obj_state_initial (getlines content) = Inr st" "s_vertices st = []"
    by (auto simp add: obj_state_initial_def)
  then show ?thesis
    by (simp add: loadOBJ_def)
qed

lemma getlines_face_only: "getlines ''f 1 2 3'' = [''f 1 2 3'']"
  by (simp add: getlines.simps)

text \<open>
  Claim C3 says that the import returns failure whenever no \<^verbatim>\<open>v\<close> line was parsed.
  The file whose only line is \<^verbatim>\<open>f 1 2 3\<close> has no \<^verbatim>\<open>v\<close> line; \<^verbatim>\<open>parseVertex\<close> reads
  \<^verbatim>\<open>positions[0]\<close> of the empty vector, which is undefined, before the check for an
  empty vertex list is reached. The normal and texture lookups of the same lambda are
  bounds-checked.
\<close>

theorem loadOBJ_face_without_positions:
  "list_all (\<lambda>line. fst (read_token line) \<noteq> ''v'') (getlines ''f 1 2 3'') \<and>
   loadOBJ read_float (Some ''f 1 2 3'') mesh = Inl UndefinedBehaviour"
  by (simp add: getlines_face_only loadOBJ_def obj_state_initial_def parse_line_def
      parse_face_def parseVertex_def read_token_def read_field_def isspace_def stoi_minus_1_def
      stoi_def isdigit_def digit_value_def elem_at_def Let_def)

text \<open>
  For comparison, a file with three positions, one normal and one triangle loads: the
  call returns \<^verbatim>\<open>true\<close> and writes three vertices and the indices \<open>0, 1, 2\<close>.
\<close>

lemma getlines_triangle:
  "getlines 
     ''v 0 0 0\<newline>v 1 0 0\<newline>v 0 1 0\<newline>vn 0 0 1\<newline>f 1//1 2//1 3//1\<newline>'' =
   [''v 0 0 0'', ''v 1 0 0'', ''v 0 1 0'', ''vn 0 0 1'', ''f 1//1 2//1 3//1'']"
  by (simp add: getlines.simps)

lemma loadOBJ_triangle:
  "loadOBJ read_float
     (Some ''v 0 0 0\<newline>v 1 0 0\<newline>v 0 1 0\<newline>vn 0 0 1\<newline>f 1//1 2//1 3//1\<newline>'') mesh =
   Inr (True, mesh
     \<lparr>m_vertices :=
        [ObjVertex (Vec3 (read_float ''0'') (read_float ''0'') (read_float ''0''))
           (Vec3 (read_float ''0'') (read_float ''0'') (read_float ''1'')) (Vec2 0 0)
           (Vec3 \<bar>sin (read_float ''0'' * 2)\<bar> \<bar>cos (read_float ''0'' * 2)\<bar>
              \<bar>sin (read_float ''0'' * 2)\<bar>),
         ObjVertex (Vec3 (read_float ''1'') (read_float ''0'') (read_float ''0''))
           (Vec3 (read_float ''0'') (read_float ''0'') (read_float ''1'')) (Vec2 0 0)
           (Vec3 \<bar>sin (read_float ''1'' * 2)\<bar> \<bar>cos (read_float ''0'' * 2)\<bar>
              \<bar>sin (read_float ''0'' * 2)\<bar>),
         ObjVertex (Vec3 (read_float ''0'') (read_float ''1'') (read_float ''0''))
           (Vec3 (read_float ''0'') (read_float ''0'') (read_float ''1'')) (Vec2 0 0)
           (Vec3 \<bar>sin (read_float ''0'' * 2)\<bar> \<bar>cos (read_float ''1'' * 2)\<bar>
              \<bar>sin (read_float ''0'' * 2)\<bar>)],
      m_indices := [0, 1, 2]\<rparr>)"
  by (simp add: loadOBJ_def getlines_triangle obj_state_initial_def parse_line_def
      parse_face_def parseVertex_def read_token_def read_field_def isspace_def stoi_minus_1_def
      stoi_def isdigit_def digit_value_def elem_at_def read_floats3_def Let_def
      numeral_2_eq_2)

end
